theory Spec2Isabelle
  imports Complex_Main "HOL-Library.Signed_Division"
begin

section \<open>The shape markups node (Shape/MRML/vtkMRMLMarkupsShapeNode.cxx)\<close>

text \<open>
  A shallow embedding of \<^verbatim>\<open>vtkMRMLMarkupsShapeNode\<close>. The node is a record, every method
  is a function from the node to its result, and a mutating method returns the new node.

  Conventions of the embedding:
  \<^item> a C++ \<^verbatim>\<open>double\<close> that the code computes is a value of the type \<open>double\<close> below: a
    real number, an infinity or not a number, and every arithmetic operation rounds its
    exact result to the nearest binary64 number, ties to even, as IEEE 754 prescribes;
  \<^item> the coordinates that a node stores and the radius that a caller passes are finite:
    they are real numbers, and a method that writes a coordinate which is not finite
    leaves a node outside of this state space;
  \<^item> a C++ \<^verbatim>\<open>int\<close> is an \<^typ>\<open>int\<close>: the only arithmetic on indices is \<^verbatim>\<open>n + 1\<close> below the
    number of control points and \<^verbatim>\<open>n - 1\<close> on an odd \<^verbatim>\<open>n\<close>, which cannot overflow;
    \<^verbatim>\<open>%\<close> is the truncating remainder \<open>smod\<close>;
  \<^item> \<^verbatim>\<open>vtkErrorMacro\<close> is modelled by the list of the messages a call has emitted
    (\<^verbatim>\<open>vtkDebugMacro\<close> prints only in debug mode and is left out).
\<close>

subsection \<open>Double precision arithmetic\<close>

text \<open>
  A binary64 number is \<open>m * 2 ^ e\<close> with an integer \<open>m\<close> of magnitude below \<open>2 ^ 53\<close>
  and \<open>- 1074 \<le> e\<close>, of magnitude below \<open>2 ^ 1024\<close>. The sign of zero is not modelled:
  it shows only in the sign of a quotient by zero, and the one divisor of the code that
  can be zero is the square root of a sum of squares, which is never the negative zero.
  Each operation is rounded on its own (no fused multiply-add, no extended precision).
\<close>

datatype double = Finite real | PlusInf | MinusInf | NaN

text \<open>The nearest integer, the even one of two nearest.\<close>

definition rne :: "real \<Rightarrow> int" where
  "rne y =
     (let f = \<lfloor>y\<rfloor>
      in if y - of_int f < 1 / 2 then f
         else if 1 / 2 < y - of_int f then f + 1
         else if even f then f else f + 1)"

text \<open>
  The distance of two neighbouring binary64 numbers around \<open>x\<close>: 52 binary places below
  the leading one of \<open>x\<close>, and \<open>2 ^ - 1074\<close> for the subnormal numbers.
\<close>

definition quantum :: "real \<Rightarrow> real" where
  "quantum x = 2 powi (max \<lfloor>log 2 \<bar>x\<bar>\<rfloor> (- 1022) - 52)"

definition round_double :: "real \<Rightarrow> double" where
  "round_double x =
     (if x = 0 then Finite 0
      else
        let v = of_int (rne (x / quantum x)) * quantum x
        in if 2 ^ 1024 \<le> v then PlusInf
           else if v \<le> - (2 ^ 1024) then MinusInf
           else Finite v)"

fun dneg :: "double \<Rightarrow> double" where
  "dneg (Finite a) = Finite (- a)"
| "dneg PlusInf = MinusInf"
| "dneg MinusInf = PlusInf"
| "dneg NaN = NaN"

fun dadd :: "double \<Rightarrow> double \<Rightarrow> double" where
  "dadd (Finite a) (Finite b) = round_double (a + b)"
| "dadd NaN y = NaN"
| "dadd x NaN = NaN"
| "dadd PlusInf MinusInf = NaN"
| "dadd MinusInf PlusInf = NaN"
| "dadd PlusInf y = PlusInf"
| "dadd x PlusInf = PlusInf"
| "dadd MinusInf y = MinusInf"
| "dadd x MinusInf = MinusInf"

definition dsub :: "double \<Rightarrow> double \<Rightarrow> double" where
  "dsub x y = dadd x (dneg y)"

text \<open>The product of a finite number and an infinity: the sign rule, not a number for 0.\<close>

definition scaled_inf :: "real \<Rightarrow> double \<Rightarrow> double" where
  "scaled_inf a i = (if a = 0 then NaN else if 0 < a then i else dneg i)"

fun dmul :: "double \<Rightarrow> double \<Rightarrow> double" where
  "dmul (Finite a) (Finite b) = round_double (a * b)"
| "dmul NaN y = NaN"
| "dmul x NaN = NaN"
| "dmul (Finite a) y = scaled_inf a y"
| "dmul x (Finite b) = scaled_inf b x"
| "dmul PlusInf y = y"
| "dmul MinusInf y = dneg y"

fun ddiv :: "double \<Rightarrow> double \<Rightarrow> double" where
  "ddiv (Finite a) (Finite b) =
     (if b = 0 then scaled_inf a PlusInf else round_double (a / b))"
| "ddiv NaN y = NaN"
| "ddiv x NaN = NaN"
| "ddiv (Finite a) y = Finite 0"
| "ddiv x (Finite b) = (if 0 \<le> b then x else dneg x)"
| "ddiv x y = NaN"

fun dsqrt :: "double \<Rightarrow> double" where
  "dsqrt (Finite a) = (if a < 0 then NaN else round_double (sqrt a))"
| "dsqrt PlusInf = PlusInf"
| "dsqrt MinusInf = NaN"
| "dsqrt NaN = NaN"

fun dle :: "double \<Rightarrow> double \<Rightarrow> bool" where
  "dle (Finite a) (Finite b) = (a \<le> b)"
| "dle NaN y = False"
| "dle x NaN = False"
| "dle MinusInf y = True"
| "dle x PlusInf = True"
| "dle x y = False"

fun dlt :: "double \<Rightarrow> double \<Rightarrow> bool" where
  "dlt (Finite a) (Finite b) = (a < b)"
| "dlt NaN y = False"
| "dlt x NaN = False"
| "dlt PlusInf y = False"
| "dlt x MinusInf = False"
| "dlt x y = True"

text \<open>A computed distance is a number that is not negative, or the positive infinity.\<close>

fun nonneg :: "double \<Rightarrow> bool" where
  "nonneg (Finite v) = (0 \<le> v)"
| "nonneg PlusInf = True"
| "nonneg MinusInf = False"
| "nonneg NaN = False"



subsection \<open>Vectors (vtkMath)\<close>

type_synonym vec3 = "real \<times> real \<times> real"

type_synonym dvec3 = "double \<times> double \<times> double"

text \<open>The array of three doubles that holds a stored position.\<close>

fun FiniteVec :: "vec3 \<Rightarrow> dvec3" where
  "FiniteVec (x, y, z) = (Finite x, Finite y, Finite z)"

text \<open>\<^verbatim>\<open>vtkMath::Distance2BetweenPoints\<close>: the squared Euclidean distance.\<close>

fun Distance2BetweenPoints :: "dvec3 \<Rightarrow> dvec3 \<Rightarrow> double" where
  "Distance2BetweenPoints (x1, y1, z1) (x2, y2, z2) =
     dadd (dadd (dmul (dsub x1 x2) (dsub x1 x2)) (dmul (dsub y1 y2) (dsub y1 y2)))
          (dmul (dsub z1 z2) (dsub z1 z2))"

text \<open>\<^verbatim>\<open>vtkMath::Cross\<close>.\<close>

fun Cross :: "dvec3 \<Rightarrow> dvec3 \<Rightarrow> dvec3" where
  "Cross (ax, ay, az) (bx, by, bz) =
     (dsub (dmul ay bz) (dmul az by), dsub (dmul az bx) (dmul ax bz),
      dsub (dmul ax by) (dmul ay bx))"

subsection \<open>The node and its control point store\<close>

text \<open>
  Modelled from the spec: the control point store. It belongs to the superclass
  \<^verbatim>\<open>vtkMRMLMarkupsNode\<close> of the host application, which is not among the sources. Its
  contract is the one the specification consumes: an ordered sequence of positions, each
  defined or undefined, numbered from 0 without gaps, with get, set and remove by index.
  A read out of range leaves the caller's zero-initialised buffer as it is, a write or a
  removal out of range does nothing, and a write changes the position only.
\<close>

record ControlPoint =
  Position :: vec3
  Defined :: bool

record Measurement =
  Name :: string
  Units :: string
  DisplayCoefficient :: real
  PrintFormat :: string
  Enabled :: bool

text \<open>
  \<^verbatim>\<open>this->ResliceNode\<close> is a pointer to any MRML node: null, a node that is no slice node
  (the \<^verbatim>\<open>SafeDownCast\<close> gives null), or a slice node.
\<close>

datatype reslice_node = NullNode | NotASliceNode | SliceNode

record ShapeNode =
  ShapeName :: int
  RadiusMode :: int
  RequiredNumberOfControlPoints :: int
  MaximumNumberOfControlPoints :: int
  Measurements :: "Measurement list"
  ControlPoints :: "ControlPoint list"
  RemovingPairControlPoint :: bool
  ResliceNode :: reslice_node

text \<open>
  Modelled from the spec: the enumerators of the header \<^verbatim>\<open>vtkMRMLMarkupsShapeNode.h\<close>,
  which is not among the sources. The shape kinds are \<open>Sphere | Ring | Disk | Tube\<close>
  and the radius modes \<open>Centered | Circumferential\<close>, numbered from 0 in this order
  (as the enumeration of the ring node's header is). Only their being distinct is used.
\<close>

definition Sphere :: int where "Sphere = 0"
definition Ring :: int where "Ring = 1"
definition Disk :: int where "Disk = 2"
definition Tube :: int where "Tube = 3"

definition Centered :: int where "Centered = 0"
definition Circumferential :: int where "Circumferential = 1"

definition GetNumberOfControlPoints :: "ShapeNode \<Rightarrow> int" where
  "GetNumberOfControlPoints s = int (length (ControlPoints s))"

definition GetNumberOfDefinedControlPoints :: "ShapeNode \<Rightarrow> int" where
  "GetNumberOfDefinedControlPoints s = int (length (filter Defined (ControlPoints s)))"

definition GetNumberOfUndefinedControlPoints :: "ShapeNode \<Rightarrow> int" where
  "GetNumberOfUndefinedControlPoints s =
     int (length (filter (\<lambda>p. \<not> Defined p) (ControlPoints s)))"

definition GetNthControlPointPositionWorld :: "int \<Rightarrow> ShapeNode \<Rightarrow> vec3" where
  "GetNthControlPointPositionWorld n s =
     (if 0 \<le> n \<and> n < GetNumberOfControlPoints s
      then Position (ControlPoints s ! nat n) else (0, 0, 0))"

definition SetNthControlPointPositionWorld :: "int \<Rightarrow> vec3 \<Rightarrow> ShapeNode \<Rightarrow> ShapeNode" where
  "SetNthControlPointPositionWorld n p s =
     (if 0 \<le> n \<and> n < GetNumberOfControlPoints s
      then s\<lparr>ControlPoints :=
               (ControlPoints s)[nat n := (ControlPoints s ! nat n)\<lparr>Position := p\<rparr>]\<rparr>
      else s)"

definition RemoveNthControlPoint :: "int \<Rightarrow> ShapeNode \<Rightarrow> ShapeNode" where
  "RemoveNthControlPoint n s =
     (if 0 \<le> n \<and> n < GetNumberOfControlPoints s
      then s\<lparr>ControlPoints :=
               take (nat n) (ControlPoints s) @ drop (Suc (nat n)) (ControlPoints s)\<rparr>
      else s)"

definition RemoveAllControlPoints :: "ShapeNode \<Rightarrow> ShapeNode" where
  "RemoveAllControlPoints s = s\<lparr>ControlPoints := []\<rparr>"

text \<open>
  \<^verbatim>\<open>GetClosestControlPointIndexToPositionWorld\<close>, of the same superclass: a scan of
  the store that returns the index of the first control point at the least distance from
  the position, -1 in an empty store.
\<close>

fun ClosestIndexFrom :: "vec3 \<Rightarrow> ControlPoint list \<Rightarrow> int \<Rightarrow> int \<Rightarrow> double \<Rightarrow> int" where
  "ClosestIndexFrom pos [] i best bestD2 = best"
| "ClosestIndexFrom pos (c # cs) i best bestD2 =
     (let d2 = Distance2BetweenPoints (FiniteVec (Position c)) (FiniteVec pos)
      in if best < 0 \<or> dlt d2 bestD2
         then ClosestIndexFrom pos cs (i + 1) i d2
         else ClosestIndexFrom pos cs (i + 1) best bestD2)"

definition GetClosestControlPointIndexToPositionWorld :: "vec3 \<Rightarrow> ShapeNode \<Rightarrow> int" where
  "GetClosestControlPointIndexToPositionWorld pos s =
     ClosestIndexFrom pos (ControlPoints s) 0 (-1) (Finite 0)"

subsection \<open>Measurements\<close>

definition lengthMeasurement :: "string \<Rightarrow> bool \<Rightarrow> Measurement" where
  "lengthMeasurement name enabled =
     \<lparr>Name = name, Units = ''mm'', DisplayCoefficient = 1,
      PrintFormat = ''%-#4.4g%s'', Enabled = enabled\<rparr>"

definition areaMeasurement :: "string \<Rightarrow> Measurement" where
  "areaMeasurement name =
     \<lparr>Name = name, Units = ''cm2'', DisplayCoefficient = 1 / 100,
      PrintFormat = ''%-#4.4g%s'', Enabled = False\<rparr>"

definition volumeMeasurement :: "bool \<Rightarrow> Measurement" where
  "volumeMeasurement enabled =
     \<lparr>Name = ''volume'', Units = ''cm3'', DisplayCoefficient = 1 / 100,
      PrintFormat = ''%-#4.4g%s'', Enabled = enabled\<rparr>"

definition ForceDiskMeasurements :: "ShapeNode \<Rightarrow> ShapeNode" where
  "ForceDiskMeasurements s =
     s\<lparr>Measurements :=
         [lengthMeasurement ''innerRadius'' True, lengthMeasurement ''outerRadius'' True,
          lengthMeasurement ''width'' False, areaMeasurement ''area'',
          areaMeasurement ''innerArea'', areaMeasurement ''outerArea'']\<rparr>"

definition ForceRingMeasurements :: "ShapeNode \<Rightarrow> ShapeNode" where
  "ForceRingMeasurements s =
     s\<lparr>Measurements := [lengthMeasurement ''radius'' True, areaMeasurement ''area'']\<rparr>"

definition ForceSphereMeasurements :: "ShapeNode \<Rightarrow> ShapeNode" where
  "ForceSphereMeasurements s =
     s\<lparr>Measurements :=
         [lengthMeasurement ''radius'' True, areaMeasurement ''area'',
          volumeMeasurement False]\<rparr>"

definition ForceTubeMeasurements :: "ShapeNode \<Rightarrow> ShapeNode" where
  "ForceTubeMeasurements s =
     s\<lparr>Measurements := [areaMeasurement ''area'', volumeMeasurement True]\<rparr>"

subsection \<open>SetShapeName\<close>

text \<open>
  The loop \<^verbatim>\<open>while (count > maximum) RemoveNthControlPoint(maximum)\<close>, entered only with
  a positive maximum, which the loop does not change.
\<close>

function RemoveExcessControlPoints :: "int \<Rightarrow> ShapeNode \<Rightarrow> ShapeNode" where
  "RemoveExcessControlPoints m s =
     (if 0 < m \<and> m < GetNumberOfControlPoints s
      then RemoveExcessControlPoints m (RemoveNthControlPoint m s) else s)"
  by pat_completeness auto
termination
  by (relation "measure (\<lambda>(m, s). length (ControlPoints s))")
     (auto simp: RemoveNthControlPoint_def GetNumberOfControlPoints_def)

definition AdjustControlPoints :: "ShapeNode \<Rightarrow> ShapeNode" where
  "AdjustControlPoints s =
     (if MaximumNumberOfControlPoints s > 0
      then RemoveExcessControlPoints (MaximumNumberOfControlPoints s) s
      else RemoveAllControlPoints s)"

text \<open>
  The switch of \<^verbatim>\<open>SetShapeName\<close>. The case \<^verbatim>\<open>Tube\<close> has no \<^verbatim>\<open>break\<close>: control falls
  through to \<^verbatim>\<open>default\<close>, which reports the error and returns before the control
  points are adjusted.
\<close>

definition SetShapeName :: "int \<Rightarrow> ShapeNode \<Rightarrow> string list \<times> ShapeNode" where
  "SetShapeName shapeName s0 =
     (let s = s0\<lparr>ShapeName := shapeName\<rparr>
      in if shapeName = Sphere
         then ([], AdjustControlPoints (ForceSphereMeasurements
                 (s\<lparr>RequiredNumberOfControlPoints := 2, MaximumNumberOfControlPoints := 2\<rparr>)))
         else if shapeName = Ring
         then ([], AdjustControlPoints (ForceRingMeasurements
                 (s\<lparr>RequiredNumberOfControlPoints := 3, MaximumNumberOfControlPoints := 3\<rparr>)))
         else if shapeName = Disk
         then ([], AdjustControlPoints (ForceDiskMeasurements
                 (s\<lparr>RequiredNumberOfControlPoints := 3, MaximumNumberOfControlPoints := 3\<rparr>)))
         else if shapeName = Tube
         then ([''Unknown shape.''], ForceTubeMeasurements
                 (s\<lparr>RequiredNumberOfControlPoints := - 1,
                    MaximumNumberOfControlPoints := - 1\<rparr>))
         else ([''Unknown shape.''], s))"

subsection \<open>Disk: the two radii\<close>

text \<open>
  \<^verbatim>\<open>DescribeDiskPointSpacing\<close> returns false (here \<open>None\<close>) or fills its four output
  arguments: closest point, farthest point, inner radius, outer radius. Point 0 is the
  centre. The store of this model has no preview status, so the argument \<^verbatim>\<open>true\<close> of
  \<^verbatim>\<open>GetNumberOfDefinedControlPoints\<close> makes no difference.
\<close>

type_synonym disk_spacing = "vec3 \<times> vec3 \<times> double \<times> double"

definition DescribeDiskPointSpacing :: "ShapeNode \<Rightarrow> string list \<times> disk_spacing option" where
  "DescribeDiskPointSpacing s =
     (if ShapeName s \<noteq> Disk then ([''Current shape is not a disk.''], None)
      else if GetNumberOfDefinedControlPoints s \<noteq> 3 then ([], None)
      else
        let p1 = GetNthControlPointPositionWorld 0 s;
            p2 = GetNthControlPointPositionWorld 1 s;
            p3 = GetNthControlPointPositionWorld 2 s;
            distance2 = dsqrt (Distance2BetweenPoints (FiniteVec p1) (FiniteVec p2));
            distance3 = dsqrt (Distance2BetweenPoints (FiniteVec p1) (FiniteVec p3))
        in if dle distance2 distance3
           then ([], Some (p2, p3, distance2, distance3))
           else ([], Some (p3, p2, distance3, distance2)))"

subsection \<open>Moving a point along a line\<close>

text \<open>
  \<^verbatim>\<open>FindLinearCoordinateByDistance\<close> divides by the computed length of the line and does
  not look at it first. When that length is 0, the quotient is an infinity or not a
  number, and so are the coordinates of the result.
\<close>

fun FindLinearCoordinateByDistance :: "dvec3 \<Rightarrow> dvec3 \<Rightarrow> double \<Rightarrow> dvec3" where
  "FindLinearCoordinateByDistance (p1x, p1y, p1z) (p2x, p2y, p2z) difference =
     (let rp2x = dsub p2x p1x; rp2y = dsub p2y p1y; rp2z = dsub p2z p1z;
          lineLength = dsqrt (Distance2BetweenPoints (p1x, p1y, p1z) (p2x, p2y, p2z));
          factor = dadd (Finite 1) (ddiv difference lineLength)
      in (dadd p1x (dmul rp2x factor), dadd p1y (dmul rp2y factor),
          dadd p1z (dmul rp2z factor)))"

text \<open>
  Writing a computed position: a finite position is stored by
  \<open>SetNthControlPointPositionWorld\<close>; a position with a coordinate that is not finite
  makes the node one that no \<open>ShapeNode\<close> describes (\<open>None\<close>), unless the index is out
  of range and nothing is written.
\<close>

fun StoreComputedPosition :: "int \<Rightarrow> dvec3 \<Rightarrow> ShapeNode \<Rightarrow> ShapeNode option" where
  "StoreComputedPosition n (Finite x, Finite y, Finite z) s =
     Some (SetNthControlPointPositionWorld n (x, y, z) s)"
| "StoreComputedPosition n q s =
     (if 0 \<le> n \<and> n < GetNumberOfControlPoints s then None else Some s)"

subsection \<open>SetRadius, SetInnerRadius, SetOuterRadius\<close>

text \<open>
  A mutating method returns the messages it emitted and the node it leaves: \<open>Some s\<close>
  with the node unchanged after an early return, \<open>Some s'\<close> after its writes, \<open>None\<close>
  when it has written a position that is not finite.
\<close>

definition SetRadius :: "real \<Rightarrow> ShapeNode \<Rightarrow> string list \<times> ShapeNode option" where
  "SetRadius radius s =
     (if ShapeName s = Disk
      then ([''Current shape is a disk. Use SetInnerRadius and SetOuterRadius''], Some s)
      else if radius \<le> 0 then ([''Radius must be greater than zero.''], Some s)
      else
        let rasP1 = FiniteVec (GetNthControlPointPositionWorld 0 s);
            rasP2 = FiniteVec (GetNthControlPointPositionWorld 1 s);
            lineLength = dsqrt (Distance2BetweenPoints rasP1 rasP2);
            currentRadius = (if RadiusMode s = Centered then lineLength
                             else ddiv lineLength (Finite 2));
            difference = dsub (Finite radius) currentRadius;
            rasP2Shifted = FindLinearCoordinateByDistance rasP1 rasP2 difference;
            s1 = StoreComputedPosition 1 rasP2Shifted s
        in if RadiusMode s = Circumferential
           then ([], Option.bind s1
                   (StoreComputedPosition 0
                      (FindLinearCoordinateByDistance rasP2 rasP1 difference)))
           else ([], s1))"

definition SetInnerRadius :: "real \<Rightarrow> ShapeNode \<Rightarrow> string list \<times> ShapeNode option" where
  "SetInnerRadius radius s =
     (if ShapeName s \<noteq> Disk then ([''Current shape is not a disk. Use SetRadius.''], Some s)
      else if radius \<le> 0 then ([''Radius must be greater than zero.''], Some s)
      else
        case DescribeDiskPointSpacing s of
          (msgs, None) \<Rightarrow> (msgs, Some s)
        | (msgs, Some (closestPoint, farthestPoint, innerRadius, outerRadius)) \<Rightarrow>
            if dle outerRadius (Finite radius)
            then (msgs @ [''Inner radius must be less than outer radius.''], Some s)
            else
              let rasP1 = GetNthControlPointPositionWorld 0 s;
                  difference = dsub (Finite radius) innerRadius;
                  closestPointShifted =
                    FindLinearCoordinateByDistance (FiniteVec rasP1) (FiniteVec closestPoint)
                      difference
              in (msgs, StoreComputedPosition
                          (GetClosestControlPointIndexToPositionWorld closestPoint s)
                          closestPointShifted s))"

definition SetOuterRadius :: "real \<Rightarrow> ShapeNode \<Rightarrow> string list \<times> ShapeNode option" where
  "SetOuterRadius radius s =
     (if ShapeName s \<noteq> Disk then ([''Current shape is not a disk. Use SetRadius.''], Some s)
      else if radius \<le> 0 then ([''Radius must be greater than zero.''], Some s)
      else
        case DescribeDiskPointSpacing s of
          (msgs, None) \<Rightarrow> (msgs, Some s)
        | (msgs, Some (closestPoint, farthestPoint, innerRadius, outerRadius)) \<Rightarrow>
            if dle (Finite radius) innerRadius
            then (msgs @ [''Outer radius must be greater than inner radius.''], Some s)
            else
              let rasP1 = GetNthControlPointPositionWorld 0 s;
                  difference = dsub (Finite radius) outerRadius;
                  farthestPointShifted =
                    FindLinearCoordinateByDistance (FiniteVec rasP1) (FiniteVec farthestPoint)
                      difference
              in (msgs, StoreComputedPosition
                          (GetClosestControlPointIndexToPositionWorld farthestPoint s)
                          farthestPointShifted s))"

subsection \<open>Reslicing\<close>

text \<open>
  The effect of the reslice methods is the call
  \<^verbatim>\<open>SetSliceToRASByNTP(N, T, P, 0)\<close> on the slice node: the result is its three vector
  arguments, the computed normal and two stored positions, or \<open>None\<close> when no call is
  made.
\<close>

type_synonym reslice_call = "dvec3 \<times> vec3 \<times> vec3"

definition ResliceToPlane :: "ShapeNode \<Rightarrow> reslice_call option" where
  "ResliceToPlane s =
     (if ResliceNode s = NullNode then None
      else if ResliceNode s \<noteq> SliceNode then None
      else
        case (GetNthControlPointPositionWorld 0 s, GetNthControlPointPositionWorld 1 s,
              GetNthControlPointPositionWorld 2 s) of
          ((x1, y1, z1), (x2, y2, z2), (x3, y3, z3)) \<Rightarrow>
            let rRasP2 = (dsub (Finite x2) (Finite x1), dsub (Finite y2) (Finite y1),
                          dsub (Finite z2) (Finite z1));
                rRasP3 = (dsub (Finite x3) (Finite x1), dsub (Finite y3) (Finite y1),
                          dsub (Finite z3) (Finite z1));
                rasNormal = Cross rRasP2 rRasP3
            in if fst rasNormal = Finite 0 \<and> fst (snd rasNormal) = Finite 0
                  \<and> snd (snd rasNormal) = Finite 0
               then None
               else Some (rasNormal, (x2, y2, z2), (x1, y1, z1)))"

definition ResliceToLine :: "ShapeNode \<Rightarrow> reslice_call option" where
  "ResliceToLine s =
     (if ResliceNode s = NullNode then None
      else if ResliceNode s \<noteq> SliceNode then None
      else
        let rasP1 = GetNthControlPointPositionWorld 0 s;
            rasP2 = GetNthControlPointPositionWorld 1 s;
            rasNormal = Cross (FiniteVec rasP1) (FiniteVec rasP2)
        in if fst rasNormal = Finite 0 \<and> fst (snd rasNormal) = Finite 0
              \<and> snd (snd rasNormal) = Finite 0
           then None
           else Some (rasNormal, rasP2, rasP1))"

definition ResliceToControlPoints :: "ShapeNode \<Rightarrow> string list \<times> reslice_call option" where
  "ResliceToControlPoints s =
     (if ShapeName s = Sphere then ([], ResliceToLine s)
      else if ShapeName s = Ring then ([], ResliceToPlane s)
      else if ShapeName s = Disk then ([], ResliceToPlane s)
      else if ShapeName s = Tube then ([], None)
      else ([''Unknown shape.''], None))"

subsection \<open>Tube: pairs of control points\<close>

text \<open>
  The observer of \<^verbatim>\<open>PointPositionUndefinedEvent\<close>; \<open>client\<close> is the node itself, never
  null, and \<open>removedIndex\<close> the index the event carries. The removal it makes is the
  store's; the event the host sends for that removal is another call of this function.
\<close>

definition OnPointPositionUndefined :: "int \<Rightarrow> ShapeNode \<Rightarrow> ShapeNode" where
  "OnPointPositionUndefined removedIndex client =
     (if ShapeName client \<noteq> Tube \<or> GetNumberOfUndefinedControlPoints client > 0
      then client
      else if RemovingPairControlPoint client \<or> GetNumberOfControlPoints client = 0
      then client\<lparr>RemovingPairControlPoint := False\<rparr>
      else if removedIndex smod 2 = 0
      then (if GetNumberOfControlPoints client > removedIndex
            then RemoveNthControlPoint removedIndex
                   (client\<lparr>RemovingPairControlPoint := True\<rparr>)
            else client\<lparr>RemovingPairControlPoint := False\<rparr>)
      else RemoveNthControlPoint (removedIndex - 1)
             (client\<lparr>RemovingPairControlPoint := True\<rparr>))"

text \<open>The two points of the pair of index \<open>n\<close>, as both radius methods read them.\<close>

definition PairPoints :: "int \<Rightarrow> ShapeNode \<Rightarrow> vec3 \<times> vec3" where
  "PairPoints n s =
     (if n smod 2 = 0
      then (GetNthControlPointPositionWorld n s, GetNthControlPointPositionWorld (n + 1) s)
      else (GetNthControlPointPositionWorld (n - 1) s, GetNthControlPointPositionWorld n s))"

definition GetRadiusAtNthControlPoint :: "int \<Rightarrow> ShapeNode \<Rightarrow> string list \<times> double" where
  "GetRadiusAtNthControlPoint n s =
     (if ShapeName s \<noteq> Tube then ([''Not a Tube shape.''], Finite (- 1))
      else if n < 0
            \<or> GetNumberOfUndefinedControlPoints s > 0
            \<or> GetNumberOfDefinedControlPoints s < 4
            \<or> GetNumberOfDefinedControlPoints s smod 2 \<noteq> 0
            \<or> n \<ge> GetNumberOfDefinedControlPoints s
      then ([''Tube shape has undefined control points, or odd number of control points, or less than 4 control points, or fewer control points than requested.''],
            Finite (- 1))
      else
        case PairPoints n s of
          (p1, p2) \<Rightarrow>
            ([], ddiv (dsqrt (Distance2BetweenPoints (FiniteVec p1) (FiniteVec p2)))
                      (Finite 2)))"

definition SetRadiusAtNthControlPoint ::
    "int \<Rightarrow> real \<Rightarrow> ShapeNode \<Rightarrow> string list \<times> ShapeNode option" where
  "SetRadiusAtNthControlPoint n radius s =
     (if radius \<le> 0 then ([''Requested radius must be greater than 0.0.''], Some s)
      else
        case GetRadiusAtNthControlPoint n s of
          (msgs, currentRadius) \<Rightarrow>
            if dle currentRadius (Finite 0) then (msgs, Some s)
            else
              case PairPoints n s of
                ((x1, y1, z1), (x2, y2, z2)) \<Rightarrow>
                  let middlePoint = (ddiv (dadd (Finite x1) (Finite x2)) (Finite 2),
                                     ddiv (dadd (Finite y1) (Finite y2)) (Finite 2),
                                     ddiv (dadd (Finite z1) (Finite z2)) (Finite 2));
                      radiusDifference = dsub (Finite radius) currentRadius;
                      p1New = FindLinearCoordinateByDistance middlePoint
                                (Finite x1, Finite y1, Finite z1) radiusDifference;
                      p2New = FindLinearCoordinateByDistance middlePoint
                                (Finite x2, Finite y2, Finite z2) radiusDifference
                  in if n smod 2 = 0
                     then (msgs, Option.bind (StoreComputedPosition n p1New s)
                                   (StoreComputedPosition (n + 1) p2New))
                     else (msgs, Option.bind (StoreComputedPosition n p2New s)
                                   (StoreComputedPosition (n - 1) p1New)))"

subsection \<open>Example nodes\<close>

definition DefinedPoint :: "vec3 \<Rightarrow> ControlPoint" where
  "DefinedPoint p = \<lparr>Position = p, Defined = True\<rparr>"

text \<open>The node as its constructor leaves it, with two points placed.\<close>

definition sphere_node :: ShapeNode where
  "sphere_node =
     \<lparr>ShapeName = Sphere, RadiusMode = Centered,
      RequiredNumberOfControlPoints = 2, MaximumNumberOfControlPoints = 2,
      Measurements = [lengthMeasurement ''radius'' True, areaMeasurement ''area'',
                      volumeMeasurement False],
      ControlPoints = [DefinedPoint (0, 0, 0), DefinedPoint (10, 0, 0)],
      RemovingPairControlPoint = False, ResliceNode = NullNode\<rparr>"

text \<open>A tube of three pairs, of radius 5, 3 and 4.\<close>

definition tube_node :: ShapeNode where
  "tube_node =
     \<lparr>ShapeName = Tube, RadiusMode = Centered,
      RequiredNumberOfControlPoints = - 1, MaximumNumberOfControlPoints = - 1,
      Measurements = [areaMeasurement ''area'', volumeMeasurement True],
      ControlPoints = [DefinedPoint (0, 0, 0), DefinedPoint (10, 0, 0),
                       DefinedPoint (0, 0, 5), DefinedPoint (0, 6, 5),
                       DefinedPoint (0, 0, 10), DefinedPoint (8, 0, 10)],
      RemovingPairControlPoint = False, ResliceNode = NullNode\<rparr>"

subsection \<open>The specification's precondition of the segment radius\<close>

text \<open>
  In the words of the specification: the query is invalid when \<open>n\<close> is negative, some
  control point is undefined, fewer than 4 points are defined, the defined count is odd,
  or \<open>n\<close> is not less than the defined count.
\<close>

definition SegmentQueryInvalid :: "int \<Rightarrow> ShapeNode \<Rightarrow> bool" where
  "SegmentQueryInvalid n s =
     (n < 0
      \<or> (\<exists>p \<in> set (ControlPoints s). \<not> Defined p)
      \<or> length (filter Defined (ControlPoints s)) < 4
      \<or> odd (length (filter Defined (ControlPoints s)))
      \<or> int (length (filter Defined (ControlPoints s))) \<le> n)"

text \<open>A ring with a slice node to reslice.\<close>

definition ring_node :: ShapeNode where
  "ring_node =
     \<lparr>ShapeName = Ring, RadiusMode = Centered,
      RequiredNumberOfControlPoints = 3, MaximumNumberOfControlPoints = 3,
      Measurements = [lengthMeasurement ''radius'' True, areaMeasurement ''area''],
      ControlPoints = [DefinedPoint (1, 1, 1), DefinedPoint (4, 1, 1), DefinedPoint (1, 3, 1)],
      RemovingPairControlPoint = False, ResliceNode = SliceNode\<rparr>"


text \<open>The disk of the specification's example: inner radius 3, outer radius 7.\<close>

definition disk_node :: ShapeNode where
  "disk_node =
     \<lparr>ShapeName = Disk, RadiusMode = Centered,
      RequiredNumberOfControlPoints = 3, MaximumNumberOfControlPoints = 3,
      Measurements = [lengthMeasurement ''innerRadius'' True,
                      lengthMeasurement ''outerRadius'' True,
                      lengthMeasurement ''width'' False, areaMeasurement ''area'',
                      areaMeasurement ''innerArea'', areaMeasurement ''outerArea''],
      ControlPoints = [DefinedPoint (0, 0, 0), DefinedPoint (3, 0, 0), DefinedPoint (0, 7, 0)],
      RemovingPairControlPoint = False, ResliceNode = NullNode\<rparr>"

subsection \<open>Reading a result of DescribeDiskPointSpacing\<close>



text \<open>A disk whose first ring point lies on the centre, and a disk of three equal points.\<close>

definition coincident_disk_node :: ShapeNode where
  "coincident_disk_node =
     disk_node\<lparr>ControlPoints :=
       [DefinedPoint (0, 0, 0), DefinedPoint (0, 0, 0), DefinedPoint (0, 7, 0)]\<rparr>"

definition collapsed_disk_node :: ShapeNode where
  "collapsed_disk_node =
     disk_node\<lparr>ControlPoints :=
       [DefinedPoint (1, 2, 3), DefinedPoint (1, 2, 3), DefinedPoint (1, 2, 3)]\<rparr>"

text \<open>
  A sphere whose two points are distinct and so near that the square of their distance
  is below the least positive double.
\<close>

definition tiny :: real where
  "tiny = 2 powi (- 600)"

definition tiny_sphere_node :: ShapeNode where
  "tiny_sphere_node =
     sphere_node\<lparr>ControlPoints := [DefinedPoint (0, 0, 0), DefinedPoint (tiny, 0, 0)]\<rparr>"

text \<open>
  A tube whose second pair has radius 1 and lies so far out that the middle of the pair
  is no double of its own.
\<close>

definition far_tube_node :: ShapeNode where
  "far_tube_node =
     tube_node\<lparr>ControlPoints :=
       [DefinedPoint (0, 0, 0), DefinedPoint (10, 0, 0),
        DefinedPoint (10000000000000000, 0, 0), DefinedPoint (10000000000000002, 0, 0)]\<rparr>"

section \<open>Properties\<close>

subsection \<open>Rounding\<close>

lemma rne_of_int [simp]: "rne (of_int n) = n"
  by (simp add: rne_def)

lemma rne_nonneg: "0 \<le> y \<Longrightarrow> 0 \<le> rne y"
  by (auto simp: rne_def Let_def)

lemma rne_small: "0 \<le> y \<Longrightarrow> y < 1 / 2 \<Longrightarrow> rne y = 0"
proof -
  assume y: "0 \<le> y" "y < 1 / 2"
  then have "\<lfloor>y\<rfloor> = 0" by (simp add: floor_eq_iff)
  with y show ?thesis by (simp add: rne_def)
qed

lemma quantum_pos: "0 < quantum x"
  by (simp add: quantum_def zero_less_power_int)

text \<open>The exponent of a number between two powers of 2.\<close>

lemma floor_log2:
  assumes "2 powi k \<le> \<bar>x\<bar>" and "\<bar>x\<bar> < 2 powi (k + 1)"
  shows "\<lfloor>log 2 \<bar>x\<bar>\<rfloor> = k"
proof -
  have p: "(2::real) powr real_of_int j = 2 powi j" for j
    by (simp add: powr_real_of_int')
  have "0 < (2::real) powi k" by (simp add: zero_less_power_int)
  with assms(1) have "0 < \<bar>x\<bar>" by linarith
  then have "(\<lfloor>log 2 \<bar>x\<bar>\<rfloor> = k)
             = (2 powr real_of_int k \<le> \<bar>x\<bar> \<and> \<bar>x\<bar> < 2 powr real_of_int (k + 1))"
    by (intro floor_log_eq_powr_iff) simp_all
  then show ?thesis unfolding p using assms by simp
qed

lemma log2_bounds:
  assumes "x \<noteq> 0"
  shows "2 powi \<lfloor>log 2 \<bar>x\<bar>\<rfloor> \<le> \<bar>x\<bar>" and "\<bar>x\<bar> < 2 powi (\<lfloor>log 2 \<bar>x\<bar>\<rfloor> + 1)"
proof -
  have p: "(2::real) powr real_of_int j = 2 powi j" for j
    by (simp add: powr_real_of_int')
  from assms have "0 < \<bar>x\<bar>" by simp
  then have "2 powr real_of_int \<lfloor>log 2 \<bar>x\<bar>\<rfloor> \<le> \<bar>x\<bar> \<and> \<bar>x\<bar> < 2 powr real_of_int (\<lfloor>log 2 \<bar>x\<bar>\<rfloor> + 1)"
    using floor_log_eq_powr_iff [of "\<bar>x\<bar>" 2 "\<lfloor>log 2 \<bar>x\<bar>\<rfloor>"] by simp
  then show "2 powi \<lfloor>log 2 \<bar>x\<bar>\<rfloor> \<le> \<bar>x\<bar>" and "\<bar>x\<bar> < 2 powi (\<lfloor>log 2 \<bar>x\<bar>\<rfloor> + 1)"
    unfolding p by simp_all
qed

text \<open>A number that is a double is rounded to itself.\<close>

lemma round_double_exact:
  assumes x: "x = of_int m * 2 powi e" and m: "\<bar>m\<bar> < 2 ^ 53" and e: "- 1074 \<le> e"
    and b: "\<bar>x\<bar> < 2 ^ 1024"
  shows "round_double x = Finite x"
proof (cases "x = 0")
  case True
  then show ?thesis by (simp add: round_double_def)
next
  case False
  define k where "k = \<lfloor>log 2 \<bar>x\<bar>\<rfloor>"
  define E where "E = max k (- 1022) - 52"
  have q: "quantum x = 2 powi E" by (simp add: quantum_def E_def k_def)
  have kb: "2 powi k \<le> \<bar>x\<bar>" using log2_bounds(1) [OF False] by (simp add: k_def)
  have Ee: "E \<le> e"
  proof (rule ccontr)
    assume "\<not> E \<le> e"
    then have "e < E" by simp
    with e have "- 1022 < k" "e + 53 \<le> k" by (auto simp: E_def max_def split: if_splits)
    then have "(2::real) powi (e + 53) \<le> 2 powi k" by (intro power_int_increasing) simp_all
    with kb have "(2::real) powi (e + 53) \<le> \<bar>x\<bar>" by linarith
    also have "\<bar>x\<bar> = \<bar>of_int m\<bar> * 2 powi e" by (simp add: x abs_mult)
    finally have "(2::real) powi e * 2 ^ 53 \<le> \<bar>of_int m\<bar> * 2 powi e"
      by (simp add: power_int_add)
    then have "(2::real) ^ 53 \<le> \<bar>of_int m\<bar>"
      by (simp add: mult.commute zero_less_power_int)
    moreover have "\<bar>real_of_int m\<bar> < 2 ^ 53"
      using m by (metis of_int_abs of_int_less_numeral_power_cancel_iff)
    ultimately show False by linarith
  qed
  then obtain j where j: "e = E + int j" by (metis nonneg_int_cases diff_ge_0_iff_ge add_diff_cancel_left' add.commute diff_add_cancel)
  have "x / 2 powi E = of_int m * 2 ^ j"
    unfolding x j by (simp add: power_int_add)
  also have "\<dots> = of_int (m * 2 ^ j)" by simp
  finally have r: "rne (x / 2 powi E) = m * 2 ^ j" by (simp only: rne_of_int)
  have "of_int (m * 2 ^ j) * 2 powi E = x"
    unfolding x j by (simp add: power_int_add)
  then have v: "of_int (rne (x / quantum x)) * quantum x = x"
    by (simp only: q r)
  from b have "\<not> 2 ^ 1024 \<le> x" "\<not> x \<le> - (2 ^ 1024)" by (auto simp: abs_if split: if_splits)
  with False v show ?thesis by (simp add: round_double_def Let_def)
qed

lemma round_double_Ints:
  assumes "x \<in> \<int>" and "\<bar>x\<bar> < 9007199254740992"
  shows "round_double x = Finite x"
proof -
  from assms(1) obtain m where m: "x = of_int m" by (auto elim: Ints_cases)
  with assms(2) have "\<bar>m\<bar> < 2 ^ 53" by (simp flip: of_int_abs)
  moreover have "\<bar>x\<bar> < 2 ^ 1024" using assms(2) by simp
  ultimately show ?thesis
    using round_double_exact [of x m 0] m by simp
qed


lemma round_double_not_NaN [simp]: "round_double x \<noteq> NaN"
  by (simp add: round_double_def Let_def)

lemma round_double_0 [simp]: "round_double 0 = Finite 0"
  by (simp add: round_double_def)

lemma round_double_nonneg: "0 \<le> x \<Longrightarrow> nonneg (round_double x)"
proof -
  assume x: "0 \<le> x"
  then have "0 \<le> x / quantum x" using quantum_pos [of x] by simp
  then have "0 \<le> rne (x / quantum x)" by (rule rne_nonneg)
  then have "0 \<le> real_of_int (rne (x / quantum x)) * quantum x"
    using quantum_pos [of x] by simp
  then show ?thesis by (simp add: round_double_def Let_def)
qed

text \<open>Underflow: a positive number below half of the least subnormal is rounded to 0.\<close>

lemma round_double_underflow:
  assumes "0 \<le> x" and "x < 2 powi (- 1075)"
  shows "round_double x = Finite 0"
proof (cases "x = 0")
  case True
  then show ?thesis by simp
next
  case False
  with assms have pos: "0 < x" by simp
  have "\<lfloor>log 2 \<bar>x\<bar>\<rfloor> \<le> - 1022"
  proof (rule ccontr)
    assume "\<not> \<lfloor>log 2 \<bar>x\<bar>\<rfloor> \<le> - 1022"
    then have "(2::real) powi (- 1075) \<le> 2 powi \<lfloor>log 2 \<bar>x\<bar>\<rfloor>"
      by (intro power_int_increasing) simp_all
    with log2_bounds(1) [OF False] pos assms(2) show False by simp
  qed
  then have q: "quantum x = 2 powi (- 1074)" by (simp add: quantum_def max_def)
  have "x / 2 powi (- 1074) < 1 / 2"
  proof -
    have "(2::real) powi (- 1075) = 2 powi (- 1074) * 2 powi (- 1)"
      by (simp flip: power_int_add)
    with assms(2) have "x < 2 powi (- 1074) * (1 / 2)" by (simp add: power_int_minus)
    then show ?thesis by (simp add: field_simps zero_less_power_int)
  qed
  moreover have "0 \<le> x / 2 powi (- 1074)" using pos by (simp add: zero_less_power_int)
  ultimately have "rne (x / 2 powi (- 1074)) = 0"
    by (intro rne_small)
  then show ?thesis using False by (simp add: round_double_def q)
qed

text \<open>Small integers and their halves are doubles.\<close>

lemma round_double_half:
  assumes "x \<in> \<int>" and "\<bar>x\<bar> < 9007199254740992"
  shows "round_double (x / 2) = Finite (x / 2)"
proof -
  from assms(1) obtain m where m: "x = of_int m" by (auto elim: Ints_cases)
  with assms(2) have "\<bar>m\<bar> < 2 ^ 53" by (simp flip: of_int_abs)
  moreover have "\<bar>x / 2\<bar> < 2 ^ 1024" using assms(2) by simp
  moreover have "x / 2 = of_int m * 2 powi (- 1)" by (simp add: m power_int_minus)
  ultimately show ?thesis
    using round_double_exact [of "x / 2" m "- 1"] by simp
qed

lemma sqrt_4: "sqrt 4 = 2"
  using real_sqrt_abs [of 2] by simp

lemma sqrt_9: "sqrt 9 = 3"
  using real_sqrt_abs [of 3] by simp

lemma sqrt_36: "sqrt 36 = 6"
  using real_sqrt_abs [of 6] by simp

lemma sqrt_49: "sqrt 49 = 7"
  using real_sqrt_abs [of 7] by simp

lemma sqrt_100: "sqrt 100 = 10"
  using real_sqrt_abs [of 10] by simp

subsection \<open>Computed distances\<close>

lemma dsub_self [simp]: "dsub (Finite a) (Finite a) = Finite 0"
  by (simp add: dsub_def)

lemma dsub_Finite: "dsub (Finite a) (Finite b) = round_double (a - b)"
  by (simp add: dsub_def)

lemma dsub_not_NaN [simp]: "dsub (Finite a) (Finite b) \<noteq> NaN"
  by (simp add: dsub_def)

lemma square_nonneg: "x \<noteq> NaN \<Longrightarrow> nonneg (dmul x x)"
  by (cases x) (simp_all add: round_double_nonneg)

lemma dadd_nonneg: "nonneg x \<Longrightarrow> nonneg y \<Longrightarrow> nonneg (dadd x y)"
  by (cases x; cases y) (simp_all add: round_double_nonneg)

lemma dsqrt_nonneg: "nonneg x \<Longrightarrow> nonneg (dsqrt x)"
  by (cases x) (simp_all add: round_double_nonneg)

lemma half_nonneg: "nonneg x \<Longrightarrow> nonneg (ddiv x (Finite 2))"
  by (cases x) (simp_all add: round_double_nonneg)

lemma Distance2_nonneg:
  "nonneg (Distance2BetweenPoints (FiniteVec p) (FiniteVec q))"
  by (cases p, cases q) (simp add: dadd_nonneg square_nonneg)

lemma Distance2_same [simp]:
  "Distance2BetweenPoints (FiniteVec p) (FiniteVec p) = Finite 0"
  by (cases p) simp

lemma nonneg_not_sentinel: "nonneg x \<Longrightarrow> x \<noteq> Finite (- 1)"
  by (cases x) auto






subsection \<open>Basic facts\<close>

lemma kinds_distinct:
  "Sphere \<noteq> Ring" "Sphere \<noteq> Disk" "Sphere \<noteq> Tube"
  "Ring \<noteq> Disk" "Ring \<noteq> Tube" "Disk \<noteq> Tube"
  "Ring \<noteq> Sphere" "Disk \<noteq> Sphere" "Tube \<noteq> Sphere"
  "Disk \<noteq> Ring" "Tube \<noteq> Ring" "Tube \<noteq> Disk"
  by (simp_all add: Sphere_def Ring_def Disk_def Tube_def)

lemma smod_2_even: "(n smod 2 = 0) = even (n::int)"
  by (auto simp: signed_modulo_int_def sgn_if)

subsection \<open>SetShapeName\<close>

lemma SetShapeName_Tube:
  "SetShapeName Tube s =
     ([''Unknown shape.''],
      s\<lparr>ShapeName := Tube, RequiredNumberOfControlPoints := - 1,
        MaximumNumberOfControlPoints := - 1,
        Measurements := [areaMeasurement ''area'', volumeMeasurement True]\<rparr>)"
  by (simp add: SetShapeName_def kinds_distinct ForceTubeMeasurements_def)

text \<open>
  C1. SetShapeName(Tube) sets the required and the maximum count to -1, installs the
  Tube measurements and removes all control points. The code does the first two and not
  the third: on the sphere node with two points the call reports "Unknown shape." and
  returns with both points still in the store.
\<close>

theorem SetShapeName_Tube_keeps_points:
  "SetShapeName Tube sphere_node =
     ([''Unknown shape.''],
      sphere_node\<lparr>ShapeName := Tube, RequiredNumberOfControlPoints := - 1,
        MaximumNumberOfControlPoints := - 1,
        Measurements := [areaMeasurement ''area'', volumeMeasurement True]\<rparr>)
   \<and> ControlPoints (snd (SetShapeName Tube sphere_node))
       = [DefinedPoint (0, 0, 0), DefinedPoint (10, 0, 0)]
   \<and> ControlPoints (snd (SetShapeName Tube sphere_node)) \<noteq> []"
  by (simp add: SetShapeName_Tube sphere_node_def)

text \<open>
  C2, as stated: SetShapeName with a kind other than Sphere, Ring, Disk and Tube leaves
  the stored shape kind as it was. It does not: the kind 7 replaces the kind of the
  sphere node.
\<close>

theorem SetShapeName_unknown_counterexample:
  "7 \<notin> {Sphere, Ring, Disk, Tube}
   \<and> ShapeName (snd (SetShapeName 7 sphere_node)) = 7
   \<and> ShapeName (snd (SetShapeName 7 sphere_node)) \<noteq> ShapeName sphere_node"
  by (simp add: SetShapeName_def sphere_node_def Sphere_def Ring_def Disk_def Tube_def)

text \<open>
  C2, amended. For every node and every kind other than Sphere, Ring, Disk and Tube,
  SetShapeName reports "Unknown shape." and changes nothing but the stored shape kind,
  which becomes the given value: the required and maximum counts, the measurements and
  the control points are as before.
\<close>

theorem SetShapeName_unknown:
  "k \<notin> {Sphere, Ring, Disk, Tube} \<Longrightarrow>
   SetShapeName k s = ([''Unknown shape.''], s\<lparr>ShapeName := k\<rparr>)"
  by (simp add: SetShapeName_def)

theorem SetShapeName_unknown_witness:
  "7 \<notin> {Sphere, Ring, Disk, Tube}
   \<and> SetShapeName 7 sphere_node = ([''Unknown shape.''], sphere_node\<lparr>ShapeName := 7\<rparr>)"
proof -
  have h: "7 \<notin> {Sphere, Ring, Disk, Tube}"
    by (simp add: Sphere_def Ring_def Disk_def Tube_def)
  show ?thesis using h SetShapeName_unknown [OF h, of sphere_node] by simp
qed

subsection \<open>The tube pairing\<close>

lemma no_undefined_iff:
  "(GetNumberOfUndefinedControlPoints s > 0) = (\<exists>p \<in> set (ControlPoints s). \<not> Defined p)"
  by (simp add: GetNumberOfUndefinedControlPoints_def filter_empty_conv)

lemma OnPointPositionUndefined_guard:
  assumes "ShapeName s = Tube" "GetNumberOfUndefinedControlPoints s = 0"
    and "RemovingPairControlPoint s \<or> ControlPoints s = []"
  shows "OnPointPositionUndefined i s = s\<lparr>RemovingPairControlPoint := False\<rparr>"
  using assms by (auto simp: OnPointPositionUndefined_def GetNumberOfControlPoints_def)

lemma OnPointPositionUndefined_even:
  assumes "ShapeName s = Tube" "GetNumberOfUndefinedControlPoints s = 0"
    and "\<not> RemovingPairControlPoint s" "ControlPoints s \<noteq> []" "0 \<le> i" "even i"
  shows "OnPointPositionUndefined i s =
           (if i < int (length (ControlPoints s))
            then s\<lparr>RemovingPairControlPoint := True,
                   ControlPoints := take (nat i) (ControlPoints s)
                                    @ drop (Suc (nat i)) (ControlPoints s)\<rparr>
            else s\<lparr>RemovingPairControlPoint := False\<rparr>)"
  using assms
  by (simp add: OnPointPositionUndefined_def GetNumberOfControlPoints_def smod_2_even
      RemoveNthControlPoint_def)

lemma OnPointPositionUndefined_odd:
  assumes "ShapeName s = Tube" "GetNumberOfUndefinedControlPoints s = 0"
    and "\<not> RemovingPairControlPoint s" "ControlPoints s \<noteq> []" "0 \<le> i" "odd i"
  shows "OnPointPositionUndefined i s =
           s\<lparr>RemovingPairControlPoint := True,
              ControlPoints := take (nat (i - 1)) (ControlPoints s)
                               @ drop (nat i) (ControlPoints s)\<rparr>"
proof -
  have i1: "1 \<le> i" using assms(5,6) by presburger
  then have Suc_eq: "Suc (nat (i - 1)) = nat i" by simp
  show ?thesis
  proof (cases "i - 1 < int (length (ControlPoints s))")
    case True
    then show ?thesis using assms i1 Suc_eq
      by (simp add: OnPointPositionUndefined_def GetNumberOfControlPoints_def smod_2_even
          RemoveNthControlPoint_def)
  next
    case False
    then have "length (ControlPoints s) \<le> nat (i - 1)" by simp
    then show ?thesis using assms i1 False
      by (simp add: OnPointPositionUndefined_def GetNumberOfControlPoints_def smod_2_even
          RemoveNthControlPoint_def)
  qed
qed

lemma undefined_after_removal:
  "GetNumberOfUndefinedControlPoints s = 0 \<Longrightarrow>
   GetNumberOfUndefinedControlPoints (RemoveNthControlPoint i s) = 0"
  by (auto simp: GetNumberOfUndefinedControlPoints_def RemoveNthControlPoint_def
      filter_empty_conv dest: in_set_takeD in_set_dropD)

text \<open>
  C4. On a Tube with no undefined control point, the notification that the point of index
  \<open>i\<close> became undefined does the following. If the flag is set or the store is empty,
  the flag is cleared and nothing is removed. If \<open>i\<close> is even and there is a point at
  index \<open>i\<close>, the flag is set and that point is removed. If \<open>i\<close> is even and there is no
  point at index \<open>i\<close>, nothing is removed and the flag is cleared. If \<open>i\<close> is odd, the
  flag is set and the point of index \<open>i - 1\<close> is removed. From 6 points, the removal of
  index 2 followed by its notification leaves 4 points, and so does the removal of index 5
  followed by its notification.
\<close>

theorem OnPointPositionUndefined_pairing:
  assumes "ShapeName s = Tube" and "GetNumberOfUndefinedControlPoints s = 0" and "0 \<le> i"
  shows "(RemovingPairControlPoint s \<or> ControlPoints s = [] \<longrightarrow>
            OnPointPositionUndefined i s = s\<lparr>RemovingPairControlPoint := False\<rparr>)
       \<and> (\<not> RemovingPairControlPoint s \<and> ControlPoints s \<noteq> [] \<and> even i
            \<and> i < int (length (ControlPoints s)) \<longrightarrow>
            OnPointPositionUndefined i s =
              s\<lparr>RemovingPairControlPoint := True,
                 ControlPoints := take (nat i) (ControlPoints s)
                                  @ drop (Suc (nat i)) (ControlPoints s)\<rparr>)
       \<and> (\<not> RemovingPairControlPoint s \<and> ControlPoints s \<noteq> [] \<and> even i
            \<and> int (length (ControlPoints s)) \<le> i \<longrightarrow>
            OnPointPositionUndefined i s = s\<lparr>RemovingPairControlPoint := False\<rparr>)
       \<and> (\<not> RemovingPairControlPoint s \<and> ControlPoints s \<noteq> [] \<and> odd i \<longrightarrow>
            OnPointPositionUndefined i s =
              s\<lparr>RemovingPairControlPoint := True,
                 ControlPoints := take (nat (i - 1)) (ControlPoints s)
                                  @ drop (nat i) (ControlPoints s)\<rparr>)
       \<and> (\<not> RemovingPairControlPoint s \<and> length (ControlPoints s) = 6 \<longrightarrow>
            length (ControlPoints (OnPointPositionUndefined 2 (RemoveNthControlPoint 2 s))) = 4
          \<and> length (ControlPoints (OnPointPositionUndefined 5 (RemoveNthControlPoint 5 s))) = 4)"
proof (intro conjI impI)
  assume "RemovingPairControlPoint s \<or> ControlPoints s = []"
  then show "OnPointPositionUndefined i s = s\<lparr>RemovingPairControlPoint := False\<rparr>"
    using assms by (simp add: OnPointPositionUndefined_guard)
next
  assume "\<not> RemovingPairControlPoint s \<and> ControlPoints s \<noteq> [] \<and> even i
            \<and> i < int (length (ControlPoints s))"
  then show "OnPointPositionUndefined i s =
              s\<lparr>RemovingPairControlPoint := True,
                 ControlPoints := take (nat i) (ControlPoints s)
                                  @ drop (Suc (nat i)) (ControlPoints s)\<rparr>"
    using assms by (simp add: OnPointPositionUndefined_even)
next
  assume "\<not> RemovingPairControlPoint s \<and> ControlPoints s \<noteq> [] \<and> even i
            \<and> int (length (ControlPoints s)) \<le> i"
  then show "OnPointPositionUndefined i s = s\<lparr>RemovingPairControlPoint := False\<rparr>"
    using assms by (simp add: OnPointPositionUndefined_even)
next
  assume "\<not> RemovingPairControlPoint s \<and> ControlPoints s \<noteq> [] \<and> odd i"
  then show "OnPointPositionUndefined i s =
              s\<lparr>RemovingPairControlPoint := True,
                 ControlPoints := take (nat (i - 1)) (ControlPoints s)
                                  @ drop (nat i) (ControlPoints s)\<rparr>"
    using assms by (simp add: OnPointPositionUndefined_odd)
next
  assume a: "\<not> RemovingPairControlPoint s \<and> length (ControlPoints s) = 6"
  let ?r = "RemoveNthControlPoint 2 s"
  have r: "ShapeName ?r = Tube" "GetNumberOfUndefinedControlPoints ?r = 0"
    "\<not> RemovingPairControlPoint ?r" "length (ControlPoints ?r) = 5"
    using assms a undefined_after_removal [of s 2]
    by (simp_all add: RemoveNthControlPoint_def GetNumberOfControlPoints_def)
  then have "ControlPoints ?r \<noteq> []" by auto
  with r show "length (ControlPoints (OnPointPositionUndefined 2 ?r)) = 4"
    by (simp add: OnPointPositionUndefined_even)
next
  assume a: "\<not> RemovingPairControlPoint s \<and> length (ControlPoints s) = 6"
  let ?r = "RemoveNthControlPoint 5 s"
  have r: "ShapeName ?r = Tube" "GetNumberOfUndefinedControlPoints ?r = 0"
    "\<not> RemovingPairControlPoint ?r" "length (ControlPoints ?r) = 5"
    using assms a undefined_after_removal [of s 5]
    by (simp_all add: RemoveNthControlPoint_def GetNumberOfControlPoints_def)
  then have "ControlPoints ?r \<noteq> []" by auto
  with r show "length (ControlPoints (OnPointPositionUndefined 5 ?r)) = 4"
    by (simp add: OnPointPositionUndefined_odd)
qed

lemma tube_node_facts:
  "ShapeName tube_node = Tube" "GetNumberOfUndefinedControlPoints tube_node = 0"
  "\<not> RemovingPairControlPoint tube_node" "length (ControlPoints tube_node) = 6"
  by (simp_all add: tube_node_def GetNumberOfUndefinedControlPoints_def DefinedPoint_def)

theorem OnPointPositionUndefined_pairing_witness:
  "ShapeName tube_node = Tube \<and> GetNumberOfUndefinedControlPoints tube_node = 0
   \<and> (0::int) \<le> 2
   \<and> OnPointPositionUndefined 2 tube_node =
       tube_node\<lparr>RemovingPairControlPoint := True,
         ControlPoints := [DefinedPoint (0, 0, 0), DefinedPoint (10, 0, 0),
                           DefinedPoint (0, 6, 5),
                           DefinedPoint (0, 0, 10), DefinedPoint (8, 0, 10)]\<rparr>
   \<and> length (ControlPoints (OnPointPositionUndefined 2 (RemoveNthControlPoint 2 tube_node))) = 4
   \<and> length (ControlPoints (OnPointPositionUndefined 5 (RemoveNthControlPoint 5 tube_node))) = 4"
  using OnPointPositionUndefined_pairing [of tube_node 2] tube_node_facts
  by (simp add: tube_node_def)

subsection \<open>The radius of a tube segment\<close>

lemma GetRadius_guard:
  "(n < 0 \<or> GetNumberOfUndefinedControlPoints s > 0
      \<or> GetNumberOfDefinedControlPoints s < 4
      \<or> GetNumberOfDefinedControlPoints s smod 2 \<noteq> 0
      \<or> n \<ge> GetNumberOfDefinedControlPoints s) = SegmentQueryInvalid n s"
  unfolding SegmentQueryInvalid_def no_undefined_iff smod_2_even
  by (simp add: GetNumberOfDefinedControlPoints_def)

lemma all_defined_filter:
  "\<not> (\<exists>p \<in> set xs. \<not> Defined p) \<Longrightarrow> filter Defined xs = xs"
  by (induction xs) auto

lemma radius_nonneg:
  "nonneg (ddiv (dsqrt (Distance2BetweenPoints (FiniteVec p) (FiniteVec q))) (Finite 2))"
  by (intro half_nonneg dsqrt_nonneg Distance2_nonneg)

lemma GetRadius_Tube:
  "ShapeName s = Tube \<Longrightarrow>
   GetRadiusAtNthControlPoint n s =
     (if SegmentQueryInvalid n s
      then ([''Tube shape has undefined control points, or odd number of control points, or less than 4 control points, or fewer control points than requested.''], Finite (- 1))
      else ([], ddiv (dsqrt (Distance2BetweenPoints (FiniteVec (fst (PairPoints n s)))
                                                   (FiniteVec (snd (PairPoints n s)))))
                     (Finite 2)))"
  unfolding GetRadiusAtNthControlPoint_def GetRadius_guard
  by (simp split: prod.split)

lemma valid_query_range:
  assumes "\<not> SegmentQueryInvalid n s"
  shows "0 \<le> n" "n < int (length (ControlPoints s))" "even (length (ControlPoints s))"
    "4 \<le> length (ControlPoints s)" "filter Defined (ControlPoints s) = ControlPoints s"
proof -
  from assms show all: "filter Defined (ControlPoints s) = ControlPoints s"
    by (simp add: SegmentQueryInvalid_def all_defined_filter)
  from assms show "0 \<le> n" "n < int (length (ControlPoints s))"
    "even (length (ControlPoints s))" "4 \<le> length (ControlPoints s)"
    unfolding SegmentQueryInvalid_def all by auto
qed

lemma PairPoints_even:
  assumes "\<not> SegmentQueryInvalid n s" "even n"
  shows "nat n + 1 < length (ControlPoints s)"
    "PairPoints n s = (Position (ControlPoints s ! nat n),
                       Position (ControlPoints s ! (nat n + 1)))"
proof -
  note r = valid_query_range [OF assms(1)]
  from r assms(2) have "n + 1 \<noteq> int (length (ControlPoints s))" by presburger
  with r have n1: "n + 1 < int (length (ControlPoints s))" by simp
  then show "nat n + 1 < length (ControlPoints s)" using r by linarith
  have "nat (n + 1) = nat n + 1" using r by simp
  then show "PairPoints n s = (Position (ControlPoints s ! nat n),
                       Position (ControlPoints s ! (nat n + 1)))"
    using assms(2) r n1
    by (simp add: PairPoints_def smod_2_even GetNthControlPointPositionWorld_def
        GetNumberOfControlPoints_def)
qed

lemma PairPoints_odd:
  assumes "\<not> SegmentQueryInvalid n s" "odd n"
  shows "nat n < length (ControlPoints s)" "1 \<le> nat n"
    "PairPoints n s = (Position (ControlPoints s ! (nat n - 1)),
                       Position (ControlPoints s ! nat n))"
proof -
  note r = valid_query_range [OF assms(1)]
  from r show "nat n < length (ControlPoints s)" by linarith
  from r assms(2) have n1: "1 \<le> n" by presburger
  then show "1 \<le> nat n" by simp
  have "nat (n - 1) = nat n - 1" using n1 by simp
  then show "PairPoints n s = (Position (ControlPoints s ! (nat n - 1)),
                       Position (ControlPoints s ! nat n))"
    using assms(2) r n1
    by (simp add: PairPoints_def smod_2_even GetNthControlPointPositionWorld_def
        GetNumberOfControlPoints_def)
qed

text \<open>
  C7. On a Tube, GetRadiusAtNthControlPoint fails (it emits an error and returns -1)
  if and only if \<open>n\<close> is negative, or some control point is undefined, or fewer than 4
  points are defined, or the defined count is odd, or \<open>n\<close> is not less than the defined
  count. When it does not fail it returns half the distance between the points \<open>n\<close> and
  \<open>n + 1\<close> for an even \<open>n\<close>, between \<open>n - 1\<close> and \<open>n\<close> for an odd \<open>n\<close>, and both
  indices are in the store. On a shape that is not a Tube it always fails.
\<close>

theorem GetRadiusAtNthControlPoint_spec:
  "(ShapeName s \<noteq> Tube \<longrightarrow> GetRadiusAtNthControlPoint n s = ([''Not a Tube shape.''], Finite (- 1)))
 \<and> (ShapeName s = Tube \<longrightarrow>
      (snd (GetRadiusAtNthControlPoint n s) = Finite (- 1)) = SegmentQueryInvalid n s
    \<and> (fst (GetRadiusAtNthControlPoint n s) \<noteq> []) = SegmentQueryInvalid n s
    \<and> (\<not> SegmentQueryInvalid n s \<and> even n \<longrightarrow>
         nat n + 1 < length (ControlPoints s)
       \<and> snd (GetRadiusAtNthControlPoint n s) =
           ddiv (dsqrt (Distance2BetweenPoints
                          (FiniteVec (Position (ControlPoints s ! nat n)))
                          (FiniteVec (Position (ControlPoints s ! (nat n + 1))))))
                (Finite 2))
    \<and> (\<not> SegmentQueryInvalid n s \<and> odd n \<longrightarrow>
         1 \<le> nat n \<and> nat n < length (ControlPoints s)
       \<and> snd (GetRadiusAtNthControlPoint n s) =
           ddiv (dsqrt (Distance2BetweenPoints
                          (FiniteVec (Position (ControlPoints s ! (nat n - 1))))
                          (FiniteVec (Position (ControlPoints s ! nat n)))))
                (Finite 2)))"
proof (intro conjI impI)
  assume "ShapeName s \<noteq> Tube"
  then show "GetRadiusAtNthControlPoint n s = ([''Not a Tube shape.''], Finite (- 1))"
    by (simp add: GetRadiusAtNthControlPoint_def)
next
  assume t: "ShapeName s = Tube"
  have neq: "ddiv (dsqrt (Distance2BetweenPoints (FiniteVec p) (FiniteVec q))) (Finite 2)
             \<noteq> Finite (- 1)" for p q
    by (intro nonneg_not_sentinel radius_nonneg)
  show "(snd (GetRadiusAtNthControlPoint n s) = Finite (- 1)) = SegmentQueryInvalid n s"
    using neq by (simp add: GetRadius_Tube [OF t])
  show "(fst (GetRadiusAtNthControlPoint n s) \<noteq> []) = SegmentQueryInvalid n s"
    by (simp add: GetRadius_Tube [OF t])
next
  assume t: "ShapeName s = Tube" and v: "\<not> SegmentQueryInvalid n s \<and> even n"
  then show "nat n + 1 < length (ControlPoints s)"
    using PairPoints_even(1) [of n s] by simp
  from v show "snd (GetRadiusAtNthControlPoint n s) =
           ddiv (dsqrt (Distance2BetweenPoints
                          (FiniteVec (Position (ControlPoints s ! nat n)))
                          (FiniteVec (Position (ControlPoints s ! (nat n + 1))))))
                (Finite 2)"
    by (simp add: GetRadius_Tube [OF t] PairPoints_even)
next
  assume t: "ShapeName s = Tube" and v: "\<not> SegmentQueryInvalid n s \<and> odd n"
  then show "1 \<le> nat n" "nat n < length (ControlPoints s)"
    using PairPoints_odd(1,2) [of n s] by simp_all
  from v show "snd (GetRadiusAtNthControlPoint n s) =
           ddiv (dsqrt (Distance2BetweenPoints
                          (FiniteVec (Position (ControlPoints s ! (nat n - 1))))
                          (FiniteVec (Position (ControlPoints s ! nat n)))))
                (Finite 2)"
    by (simp add: GetRadius_Tube [OF t] PairPoints_odd)
qed

lemma tube_node_valid_2: "\<not> SegmentQueryInvalid 2 tube_node"
  by (simp add: SegmentQueryInvalid_def tube_node_def DefinedPoint_def)

theorem GetRadiusAtNthControlPoint_spec_witness:
  "sphere_node \<noteq> tube_node \<and> ShapeName sphere_node \<noteq> Tube \<and> ShapeName tube_node = Tube
   \<and> GetRadiusAtNthControlPoint 2 sphere_node = ([''Not a Tube shape.''], Finite (- 1))
   \<and> \<not> SegmentQueryInvalid 2 tube_node \<and> even (2::int)
   \<and> snd (GetRadiusAtNthControlPoint 2 tube_node) = Finite 3
   \<and> SegmentQueryInvalid 6 tube_node
   \<and> snd (GetRadiusAtNthControlPoint 6 tube_node) = Finite (- 1)"
  using GetRadiusAtNthControlPoint_spec [of sphere_node 2]
    GetRadiusAtNthControlPoint_spec [of tube_node 2]
    GetRadiusAtNthControlPoint_spec [of tube_node 6] tube_node_valid_2 sqrt_36
  by (auto simp add: tube_node_def sphere_node_def DefinedPoint_def kinds_distinct
      SegmentQueryInvalid_def dsub_Finite round_double_Ints)

subsection \<open>The sentinel of the segment radius\<close>






subsection \<open>Reslicing\<close>

lemma zero_vec_iff:
  "(fst v = Finite 0 \<and> fst (snd v) = Finite 0 \<and> snd (snd v) = Finite 0)
   = (v = (Finite 0, Finite 0, Finite 0))"
  by (cases v) auto

lemma ResliceToLine_SliceNode:
  "ResliceNode s = SliceNode \<Longrightarrow>
   ResliceToLine s =
     (let p0 = GetNthControlPointPositionWorld 0 s; p1 = GetNthControlPointPositionWorld 1 s
      in if Cross (FiniteVec p0) (FiniteVec p1) = (Finite 0, Finite 0, Finite 0) then None
         else Some (Cross (FiniteVec p0) (FiniteVec p1), p1, p0))"
  by (simp add: ResliceToLine_def zero_vec_iff Let_def)

lemma ResliceToPlane_SliceNode:
  assumes "ResliceNode s = SliceNode"
    and "GetNthControlPointPositionWorld 0 s = (x0, y0, z0)"
    and "GetNthControlPointPositionWorld 1 s = (x1, y1, z1)"
    and "GetNthControlPointPositionWorld 2 s = (x2, y2, z2)"
  shows "ResliceToPlane s =
     (let normal = Cross (dsub (Finite x1) (Finite x0), dsub (Finite y1) (Finite y0),
                          dsub (Finite z1) (Finite z0))
                         (dsub (Finite x2) (Finite x0), dsub (Finite y2) (Finite y0),
                          dsub (Finite z2) (Finite z0))
      in if normal = (Finite 0, Finite 0, Finite 0) then None
         else Some (normal, (x1, y1, z1), (x0, y0, z0)))"
  using assms unfolding ResliceToPlane_def zero_vec_iff by (simp add: Let_def del: Cross.simps)

text \<open>
  C9. ResliceToControlPoints dispatches on the shape kind. With \<open>p0\<close>, \<open>p1\<close>, \<open>p2\<close> the
  positions read at the indices 0, 1, 2 and a slice node set: for a Sphere the normal is
  the cross product of the position vectors \<open>p0\<close> and \<open>p1\<close>, not taken relative to
  \<open>p0\<close>, and nothing is done when it is the zero vector; for a Ring and a Disk the normal
  is the cross product of \<open>p1 - p0\<close> and \<open>p2 - p0\<close>, and nothing is done when it is the
  zero vector; for a Tube nothing is ever done. Without a slice node nothing is done.
\<close>

theorem ResliceToControlPoints_dispatch:
  assumes "GetNthControlPointPositionWorld 0 s = (x0, y0, z0)"
    and "GetNthControlPointPositionWorld 1 s = (x1, y1, z1)"
    and "GetNthControlPointPositionWorld 2 s = (x2, y2, z2)"
  shows "(ShapeName s = Sphere \<and> ResliceNode s = SliceNode \<longrightarrow>
            ResliceToControlPoints s =
              ([], if Cross (Finite x0, Finite y0, Finite z0) (Finite x1, Finite y1, Finite z1)
                      = (Finite 0, Finite 0, Finite 0)
                   then None
                   else Some (Cross (Finite x0, Finite y0, Finite z0)
                                    (Finite x1, Finite y1, Finite z1),
                              (x1, y1, z1), (x0, y0, z0))))
       \<and> ((ShapeName s = Ring \<or> ShapeName s = Disk) \<and> ResliceNode s = SliceNode \<longrightarrow>
            ResliceToControlPoints s =
              ([], if Cross (dsub (Finite x1) (Finite x0), dsub (Finite y1) (Finite y0),
                             dsub (Finite z1) (Finite z0))
                            (dsub (Finite x2) (Finite x0), dsub (Finite y2) (Finite y0),
                             dsub (Finite z2) (Finite z0))
                      = (Finite 0, Finite 0, Finite 0)
                   then None
                   else Some (Cross (dsub (Finite x1) (Finite x0), dsub (Finite y1) (Finite y0),
                                     dsub (Finite z1) (Finite z0))
                                    (dsub (Finite x2) (Finite x0), dsub (Finite y2) (Finite y0),
                                     dsub (Finite z2) (Finite z0)),
                              (x1, y1, z1), (x0, y0, z0))))
       \<and> (ShapeName s = Tube \<longrightarrow> ResliceToControlPoints s = ([], None))
       \<and> (ResliceNode s \<noteq> SliceNode \<longrightarrow> snd (ResliceToControlPoints s) = None)"
proof (intro conjI impI)
  assume "ShapeName s = Sphere \<and> ResliceNode s = SliceNode"
  then show "ResliceToControlPoints s =
              ([], if Cross (Finite x0, Finite y0, Finite z0) (Finite x1, Finite y1, Finite z1)
                      = (Finite 0, Finite 0, Finite 0)
                   then None
                   else Some (Cross (Finite x0, Finite y0, Finite z0)
                                    (Finite x1, Finite y1, Finite z1),
                              (x1, y1, z1), (x0, y0, z0)))"
    using assms(1,2)
    by (simp add: ResliceToControlPoints_def ResliceToLine_SliceNode Let_def del: Cross.simps)
next
  assume a: "(ShapeName s = Ring \<or> ShapeName s = Disk) \<and> ResliceNode s = SliceNode"
  then have "ResliceToControlPoints s = ([], ResliceToPlane s)"
    by (auto simp: ResliceToControlPoints_def kinds_distinct)
  then show "ResliceToControlPoints s =
              ([], if Cross (dsub (Finite x1) (Finite x0), dsub (Finite y1) (Finite y0),
                             dsub (Finite z1) (Finite z0))
                            (dsub (Finite x2) (Finite x0), dsub (Finite y2) (Finite y0),
                             dsub (Finite z2) (Finite z0))
                      = (Finite 0, Finite 0, Finite 0)
                   then None
                   else Some (Cross (dsub (Finite x1) (Finite x0), dsub (Finite y1) (Finite y0),
                                     dsub (Finite z1) (Finite z0))
                                    (dsub (Finite x2) (Finite x0), dsub (Finite y2) (Finite y0),
                                     dsub (Finite z2) (Finite z0)),
                              (x1, y1, z1), (x0, y0, z0)))"
    using a ResliceToPlane_SliceNode [OF _ assms] by (simp add: Let_def del: Cross.simps)
next
  assume "ShapeName s = Tube"
  then show "ResliceToControlPoints s = ([], None)"
    by (simp add: ResliceToControlPoints_def kinds_distinct)
next
  assume "ResliceNode s \<noteq> SliceNode"
  then show "snd (ResliceToControlPoints s) = None"
    by (simp add: ResliceToControlPoints_def ResliceToLine_def ResliceToPlane_def)
qed

theorem ResliceToControlPoints_dispatch_witness:
  "GetNthControlPointPositionWorld 0 ring_node = (1, 1, 1)
   \<and> GetNthControlPointPositionWorld 1 ring_node = (4, 1, 1)
   \<and> GetNthControlPointPositionWorld 2 ring_node = (1, 3, 1)
   \<and> ShapeName ring_node = Ring \<and> ResliceNode ring_node = SliceNode
   \<and> ResliceToControlPoints ring_node
       = ([], Some ((Finite 0, Finite 0, Finite 6), (4, 1, 1), (1, 1, 1)))
   \<and> ShapeName (ring_node\<lparr>ShapeName := Sphere\<rparr>) = Sphere
   \<and> ResliceToControlPoints (ring_node\<lparr>ShapeName := Sphere\<rparr>)
       = ([], Some ((Finite 0, Finite 3, Finite (- 3)), (4, 1, 1), (1, 1, 1)))
   \<and> ResliceToControlPoints (ring_node\<lparr>ShapeName := Tube\<rparr>) = ([], None)
   \<and> ResliceNode sphere_node \<noteq> SliceNode
   \<and> snd (ResliceToControlPoints sphere_node) = None"
proof -
  have g: "GetNthControlPointPositionWorld 0 ring_node = (1, 1, 1)"
    "GetNthControlPointPositionWorld 1 ring_node = (4, 1, 1)"
    "GetNthControlPointPositionWorld 2 ring_node = (1, 3, 1)"
    by (simp_all add: GetNthControlPointPositionWorld_def GetNumberOfControlPoints_def
        ring_node_def DefinedPoint_def)
  have g': "GetNthControlPointPositionWorld i (ring_node\<lparr>ShapeName := k\<rparr>)
            = GetNthControlPointPositionWorld i ring_node" for i k
    by (simp add: GetNthControlPointPositionWorld_def GetNumberOfControlPoints_def)
  have gs: "GetNthControlPointPositionWorld 0 sphere_node = (0, 0, 0)"
    "GetNthControlPointPositionWorld 1 sphere_node = (10, 0, 0)"
    "GetNthControlPointPositionWorld 2 sphere_node = (0, 0, 0)"
    by (simp_all add: GetNthControlPointPositionWorld_def GetNumberOfControlPoints_def
        sphere_node_def DefinedPoint_def)
  have k: "ShapeName ring_node = Ring" "ResliceNode ring_node = SliceNode"
    "ResliceNode sphere_node \<noteq> SliceNode"
    by (simp_all add: ring_node_def sphere_node_def)
  show ?thesis
    using ResliceToControlPoints_dispatch [OF g]
      ResliceToControlPoints_dispatch [of "ring_node\<lparr>ShapeName := Sphere\<rparr>" 1 1 1 4 1 1 1 3 1]
      ResliceToControlPoints_dispatch [of "ring_node\<lparr>ShapeName := Tube\<rparr>" 1 1 1 4 1 1 1 3 1]
      ResliceToControlPoints_dispatch [OF gs]
      g g' k
    by (simp add: dsub_Finite round_double_Ints)
qed

subsection \<open>The spacing of the disk points\<close>


lemma Describe_three:
  assumes "ShapeName s = Disk"
    and "ControlPoints s = [DefinedPoint c, DefinedPoint a, DefinedPoint b]"
  shows "DescribeDiskPointSpacing s =
     ([], Some (if dle (dsqrt (Distance2BetweenPoints (FiniteVec c) (FiniteVec a)))
                       (dsqrt (Distance2BetweenPoints (FiniteVec c) (FiniteVec b)))
                then (a, b, dsqrt (Distance2BetweenPoints (FiniteVec c) (FiniteVec a)),
                            dsqrt (Distance2BetweenPoints (FiniteVec c) (FiniteVec b)))
                else (b, a, dsqrt (Distance2BetweenPoints (FiniteVec c) (FiniteVec b)),
                            dsqrt (Distance2BetweenPoints (FiniteVec c) (FiniteVec a)))))"
  using assms
  by (simp add: DescribeDiskPointSpacing_def GetNumberOfDefinedControlPoints_def
      GetNthControlPointPositionWorld_def GetNumberOfControlPoints_def DefinedPoint_def Let_def
      del: Distance2BetweenPoints.simps FiniteVec.simps)


lemma distance_axis:
  "dsqrt (Distance2BetweenPoints (FiniteVec (0, 0, 0)) (FiniteVec (3, 0, 0))) = Finite 3"
  "dsqrt (Distance2BetweenPoints (FiniteVec (0, 0, 0)) (FiniteVec (0, 3, 0))) = Finite 3"
  "dsqrt (Distance2BetweenPoints (FiniteVec (0, 0, 0)) (FiniteVec (0, 7, 0))) = Finite 7"
  by (simp_all add: dsub_Finite round_double_Ints sqrt_9 sqrt_49)


subsection \<open>Numbers at the edge of the doubles\<close>

lemma tiny_pos: "0 < tiny"
  by (simp add: tiny_def zero_less_power_int)

lemma tiny_double: "round_double tiny = Finite tiny" "round_double (- tiny) = Finite (- tiny)"
proof -
  have b: "tiny \<le> 1"
    unfolding tiny_def using power_int_increasing [of "- 600" 0 "2::real"] by simp
  then have "\<bar>tiny\<bar> < 2 ^ 1024" "\<bar>- tiny\<bar> < 2 ^ 1024"
    using tiny_pos by simp_all
  then show "round_double tiny = Finite tiny" "round_double (- tiny) = Finite (- tiny)"
    using round_double_exact [of tiny 1 "- 600"] round_double_exact [of "- tiny" "- 1" "- 600"]
    by (simp_all add: tiny_def)
qed

lemma tiny_square: "round_double (tiny * tiny) = Finite 0"
proof -
  have "tiny * tiny = 2 powi (- 1200)"
    unfolding tiny_def by (simp flip: power_int_add)
  also have "\<dots> < 2 powi (- 1075)"
    by (intro power_int_strict_increasing) simp_all
  finally show ?thesis
    using tiny_pos by (intro round_double_underflow) simp_all
qed

lemma round_double_tie: "round_double 20000000000000002 = Finite 20000000000000000"
proof -
  have "\<lfloor>log 2 \<bar>20000000000000002 :: real\<bar>\<rfloor> = 54"
    by (rule floor_log2) simp_all
  then have q: "quantum 20000000000000002 = 4"
    by (simp add: quantum_def)
  have "rne (20000000000000002 / 4) = 5000000000000000"
    by (simp add: rne_def)
  then show ?thesis by (simp add: round_double_def q)
qed

lemma big_double:
  "round_double 10000000000000000 = Finite 10000000000000000"
  "round_double 10000000000000002 = Finite 10000000000000002"
  using round_double_exact [of 10000000000000000 152587890625 16]
    round_double_exact [of 10000000000000002 5000000000000001 1]
  by simp_all


subsection \<open>A line of length 0\<close>

lemma modes_distinct: "Centered \<noteq> Circumferential" "Circumferential \<noteq> Centered"
  by (simp_all add: Centered_def Circumferential_def)

lemma closest_index_three:
  "GetClosestControlPointIndexToPositionWorld pos (s\<lparr>ControlPoints := [P0, P1, P2]\<rparr>) =
     (let e0 = Distance2BetweenPoints (FiniteVec (Position P0)) (FiniteVec pos);
          e1 = Distance2BetweenPoints (FiniteVec (Position P1)) (FiniteVec pos);
          e2 = Distance2BetweenPoints (FiniteVec (Position P2)) (FiniteVec pos)
      in if dlt e1 e0 then (if dlt e2 e1 then 2 else 1) else (if dlt e2 e0 then 2 else 0))"
  by (simp add: GetClosestControlPointIndexToPositionWorld_def Let_def
      del: Distance2BetweenPoints.simps FiniteVec.simps)

text \<open>A line of length 0: the quotient is infinite and every coordinate not a number.\<close>

lemma FindLinear_same:
  "d \<noteq> 0 \<Longrightarrow>
   FindLinearCoordinateByDistance (FiniteVec p) (FiniteVec p) (Finite d) = (NaN, NaN, NaN)"
  by (cases p) (auto simp: scaled_inf_def Let_def)

text \<open>
  C3. After a SetInnerRadius or a SetOuterRadius that does not fail, the inner radius of
  a Disk is strictly less than its outer radius. It does not hold on the centre: on the
  disk with centre (0,0,0) and ring points (0,0,0) and (0,7,0), SetInnerRadius 3 passes
  every check (3 is positive and less than the outer radius 7) and emits no error, then
  divides by the inner radius 0 and writes a position that is not a number over point 0,
  the centre, so that no radii are left to compare. SetOuterRadius 3 does the same on
  the disk of three equal points.
\<close>

theorem SetInnerRadius_at_centre:
  "DescribeDiskPointSpacing coincident_disk_node
     = ([], Some ((0, 0, 0), (0, 7, 0), Finite 0, Finite 7))
   \<and> GetClosestControlPointIndexToPositionWorld (0, 0, 0) coincident_disk_node = 0
   \<and> FindLinearCoordinateByDistance (FiniteVec (0, 0, 0)) (FiniteVec (0, 0, 0))
        (dsub (Finite 3) (Finite 0)) = (NaN, NaN, NaN)
   \<and> SetInnerRadius 3 coincident_disk_node = ([], None)
   \<and> DescribeDiskPointSpacing collapsed_disk_node
       = ([], Some ((1, 2, 3), (1, 2, 3), Finite 0, Finite 0))
   \<and> SetOuterRadius 3 collapsed_disk_node = ([], None)"
proof -
  have d: "DescribeDiskPointSpacing coincident_disk_node
           = ([], Some ((0, 0, 0), (0, 7, 0), Finite 0, Finite 7))"
    using Describe_three [of coincident_disk_node "(0, 0, 0)" "(0, 0, 0)" "(0, 7, 0)"]
    by (simp add: coincident_disk_node_def disk_node_def distance_axis
        del: Distance2BetweenPoints.simps FiniteVec.simps)
  have i: "GetClosestControlPointIndexToPositionWorld (0, 0, 0) coincident_disk_node = 0"
    unfolding coincident_disk_node_def closest_index_three
    by (simp add: DefinedPoint_def dsub_Finite round_double_Ints)
  have n: "GetNumberOfControlPoints coincident_disk_node = 3"
    by (simp add: GetNumberOfControlPoints_def coincident_disk_node_def)
  have c: "ShapeName coincident_disk_node = Disk"
    by (simp add: coincident_disk_node_def disk_node_def)
  have g: "GetNthControlPointPositionWorld 0 coincident_disk_node = (0, 0, 0)"
    by (simp add: GetNthControlPointPositionWorld_def n)
       (simp add: coincident_disk_node_def DefinedPoint_def)
  have f: "FindLinearCoordinateByDistance (FiniteVec (0, 0, 0)) (FiniteVec (0, 0, 0))
             (dsub (Finite 3) (Finite 0)) = (NaN, NaN, NaN)"
    by (simp add: dsub_Finite round_double_Ints FindLinear_same
        del: FindLinearCoordinateByDistance.simps FiniteVec.simps)
  have s: "SetInnerRadius 3 coincident_disk_node = ([], None)"
    by (simp add: SetInnerRadius_def d i c n g f
        del: FindLinearCoordinateByDistance.simps FiniteVec.simps)
  have d': "DescribeDiskPointSpacing collapsed_disk_node
           = ([], Some ((1, 2, 3), (1, 2, 3), Finite 0, Finite 0))"
    using Describe_three [of collapsed_disk_node "(1, 2, 3)" "(1, 2, 3)" "(1, 2, 3)"]
    by (simp add: collapsed_disk_node_def disk_node_def
        del: Distance2BetweenPoints.simps FiniteVec.simps)
  have i': "GetClosestControlPointIndexToPositionWorld (1, 2, 3) collapsed_disk_node = 0"
    unfolding collapsed_disk_node_def closest_index_three
    by (simp add: DefinedPoint_def del: Distance2BetweenPoints.simps FiniteVec.simps)
  have n': "GetNumberOfControlPoints collapsed_disk_node = 3"
    by (simp add: GetNumberOfControlPoints_def collapsed_disk_node_def)
  have c': "ShapeName collapsed_disk_node = Disk"
    by (simp add: collapsed_disk_node_def disk_node_def)
  have g': "GetNthControlPointPositionWorld 0 collapsed_disk_node = (1, 2, 3)"
    by (simp add: GetNthControlPointPositionWorld_def n')
       (simp add: collapsed_disk_node_def DefinedPoint_def)
  have f': "FindLinearCoordinateByDistance (FiniteVec (1, 2, 3)) (FiniteVec (1, 2, 3))
             (dsub (Finite 3) (Finite 0)) = (NaN, NaN, NaN)"
    by (simp add: dsub_Finite round_double_Ints FindLinear_same
        del: FindLinearCoordinateByDistance.simps FiniteVec.simps)
  have s': "SetOuterRadius 3 collapsed_disk_node = ([], None)"
    by (simp add: SetOuterRadius_def d' i' c' n' g' f'
        del: FindLinearCoordinateByDistance.simps FiniteVec.simps)
  from d i f s d' s' show ?thesis by (simp del: FindLinearCoordinateByDistance.simps FiniteVec.simps)
qed

subsection \<open>SetRadius on two points closer than the square root of the least double\<close>

lemma tiny_sphere_node_facts:
  "ShapeName tiny_sphere_node \<noteq> Disk" "RadiusMode tiny_sphere_node = Centered"
  "GetNumberOfControlPoints tiny_sphere_node = 2"
  "GetNthControlPointPositionWorld 0 tiny_sphere_node = (0, 0, 0)"
  "GetNthControlPointPositionWorld 1 tiny_sphere_node = (tiny, 0, 0)"
  by (simp_all add: tiny_sphere_node_def sphere_node_def kinds_distinct
      GetNumberOfControlPoints_def GetNthControlPointPositionWorld_def DefinedPoint_def)

lemma tiny_distance:
  "Distance2BetweenPoints (FiniteVec (0, 0, 0)) (FiniteVec (tiny, 0, 0)) = Finite 0"
  "Distance2BetweenPoints (FiniteVec (tiny, 0, 0)) (FiniteVec (0, 0, 0)) = Finite 0"
  by (simp_all add: dsub_Finite tiny_double tiny_square)

lemma tiny_line:
  "FindLinearCoordinateByDistance (FiniteVec (0, 0, 0)) (FiniteVec (tiny, 0, 0)) (Finite 5)
     = (PlusInf, NaN, NaN)"
proof -
  have "FindLinearCoordinateByDistance (Finite 0, Finite 0, Finite 0)
          (Finite tiny, Finite 0, Finite 0) (Finite 5) =
        (let lineLength = dsqrt (Distance2BetweenPoints (FiniteVec (0, 0, 0))
                                   (FiniteVec (tiny, 0, 0)));
             factor = dadd (Finite 1) (ddiv (Finite 5) lineLength)
         in (dadd (Finite 0) (dmul (dsub (Finite tiny) (Finite 0)) factor),
             dadd (Finite 0) (dmul (dsub (Finite 0) (Finite 0)) factor),
             dadd (Finite 0) (dmul (dsub (Finite 0) (Finite 0)) factor)))"
    by (simp add: Let_def del: Distance2BetweenPoints.simps)
  also have "\<dots> = (PlusInf, NaN, NaN)"
    unfolding tiny_distance using tiny_pos
    by (simp add: Let_def scaled_inf_def dsub_Finite tiny_double)
  finally show ?thesis by simp
qed

text \<open>
  C5. On a shape that is not a Disk, with two control points at distinct positions and a
  radius \<open>r > 0\<close>, the radius read back after SetRadius is \<open>r\<close>. It is not on the sphere
  with the points (0,0,0) and (2^-600,0,0), which are doubles and distinct: the square of
  their distance is rounded to 0, so is the length of the line, SetRadius 5 divides by it
  without an error and writes the position (infinity, not a number, not a number) over
  point 1.
\<close>

theorem SetRadius_at_tiny_distance:
  "ShapeName tiny_sphere_node \<noteq> Disk \<and> (0::real) < 5
   \<and> GetNthControlPointPositionWorld 0 tiny_sphere_node
       \<noteq> GetNthControlPointPositionWorld 1 tiny_sphere_node
   \<and> round_double tiny = Finite tiny
   \<and> dsqrt (Distance2BetweenPoints
              (FiniteVec (GetNthControlPointPositionWorld 0 tiny_sphere_node))
              (FiniteVec (GetNthControlPointPositionWorld 1 tiny_sphere_node))) = Finite 0
   \<and> FindLinearCoordinateByDistance
        (FiniteVec (GetNthControlPointPositionWorld 0 tiny_sphere_node))
        (FiniteVec (GetNthControlPointPositionWorld 1 tiny_sphere_node))
        (dsub (Finite 5) (Finite 0)) = (PlusInf, NaN, NaN)
   \<and> SetRadius 5 tiny_sphere_node = ([], None)"
proof -
  note f = tiny_sphere_node_facts
  have ne: "GetNthControlPointPositionWorld 0 tiny_sphere_node
            \<noteq> GetNthControlPointPositionWorld 1 tiny_sphere_node"
    using tiny_pos by (simp add: f)
  have L: "dsqrt (Distance2BetweenPoints (FiniteVec (0, 0, 0)) (FiniteVec (tiny, 0, 0)))
           = Finite 0"
    unfolding tiny_distance by simp
  have d: "dsub (Finite 5) (Finite 0) = Finite 5"
    by (simp add: dsub_Finite round_double_Ints)
  have S: "SetRadius 5 tiny_sphere_node = ([], None)"
    using f(1)
    by (simp add: SetRadius_def Let_def f L d tiny_line modes_distinct
        del: FindLinearCoordinateByDistance.simps FiniteVec.simps Distance2BetweenPoints.simps)
  show ?thesis
    using f(1) ne tiny_double(1) S
    by (simp add: f L d tiny_line
        del: FindLinearCoordinateByDistance.simps FiniteVec.simps Distance2BetweenPoints.simps)
qed

subsection \<open>SetRadiusAtNthControlPoint on a pair whose middle is rounded onto a point\<close>

lemma far_tube_node_facts:
  "ShapeName far_tube_node = Tube" "\<not> SegmentQueryInvalid 2 far_tube_node"
  "GetNumberOfControlPoints far_tube_node = 4"
  "PairPoints 2 far_tube_node = ((10000000000000000, 0, 0), (10000000000000002, 0, 0))"
  by (simp_all add: far_tube_node_def tube_node_def SegmentQueryInvalid_def DefinedPoint_def
      GetNumberOfControlPoints_def PairPoints_def GetNthControlPointPositionWorld_def
      smod_2_even)

lemma far_radius: "GetRadiusAtNthControlPoint 2 far_tube_node = ([], Finite 1)"
  using far_tube_node_facts(1,2)
  by (simp add: GetRadius_Tube far_tube_node_facts(4) dsub_Finite round_double_Ints sqrt_4)

lemma far_middle:
  "ddiv (dadd (Finite 10000000000000000) (Finite 10000000000000002)) (Finite 2)
     = Finite 10000000000000000"
  by (simp add: round_double_tie big_double)

text \<open>
  C6. On a Tube on which the radius query of index \<open>n\<close> is valid and whose pair of index
  \<open>n\<close> is two distinct points, and for a radius \<open>r > 0\<close>, GetRadiusAtNthControlPoint
  returns \<open>r\<close> after SetRadiusAtNthControlPoint. It does not on the tube whose second pair
  is (10^16,0,0) and (10^16+2,0,0), two doubles: the radius of the pair is 1, the sum of the
  two first coordinates is rounded to 2 10^16, the middle of the pair is its first point, the
  line from the middle to that point has length 0, and SetRadiusAtNthControlPoint 2 4
  divides by it without an error and writes a position that is not a number over point 2.
\<close>

theorem SetRadiusAtNthControlPoint_at_rounded_middle:
  "ShapeName far_tube_node = Tube \<and> \<not> SegmentQueryInvalid 2 far_tube_node
   \<and> fst (PairPoints 2 far_tube_node) \<noteq> snd (PairPoints 2 far_tube_node)
   \<and> (0::real) < 4
   \<and> round_double 10000000000000000 = Finite 10000000000000000
   \<and> round_double 10000000000000002 = Finite 10000000000000002
   \<and> GetRadiusAtNthControlPoint 2 far_tube_node = ([], Finite 1)
   \<and> ddiv (dadd (Finite 10000000000000000) (Finite 10000000000000002)) (Finite 2)
       = Finite 10000000000000000
   \<and> FindLinearCoordinateByDistance (FiniteVec (10000000000000000, 0, 0))
        (FiniteVec (10000000000000000, 0, 0)) (dsub (Finite 4) (Finite 1)) = (NaN, NaN, NaN)
   \<and> SetRadiusAtNthControlPoint 2 4 far_tube_node = ([], None)"
proof -
  note f = far_tube_node_facts
  have d: "dsub (Finite 4) (Finite 1) = Finite 3"
    by (simp add: dsub_Finite round_double_Ints)
  have z: "ddiv (dadd (Finite 0) (Finite 0)) (Finite 2) = Finite 0"
    by simp
  have l: "FindLinearCoordinateByDistance (FiniteVec (10000000000000000, 0, 0))
             (FiniteVec (10000000000000000, 0, 0)) (Finite 3) = (NaN, NaN, NaN)"
    by (rule FindLinear_same) simp
  have l': "FindLinearCoordinateByDistance (Finite 10000000000000000, Finite 0, Finite 0)
             (Finite 10000000000000000, Finite 0, Finite 0) (Finite 3) = (NaN, NaN, NaN)"
    using l by simp
  have S: "SetRadiusAtNthControlPoint 2 4 far_tube_node = ([], None)"
    unfolding SetRadiusAtNthControlPoint_def far_radius f(4)
    by (simp add: Let_def d z round_double_tie big_double l' smod_2_even f(3)
        del: FindLinearCoordinateByDistance.simps)
  show ?thesis
    using f(1,2) S far_radius far_middle
    by (simp add: f(4) d l big_double del: FindLinearCoordinateByDistance.simps FiniteVec.simps)
qed

text \<open>The call on that tube: the query before it succeeds, the call leaves no tube.\<close>

theorem SetRadiusAtNthControlPoint_at_rounded_middle_witness:
  "GetRadiusAtNthControlPoint 2 far_tube_node = ([], Finite 1)
   \<and> SetRadiusAtNthControlPoint 2 4 far_tube_node = ([], None)"
  using SetRadiusAtNthControlPoint_at_rounded_middle by blast

subsection \<open>Two calls that move the points as intended\<close>

text \<open>The example of the specification: radius 5 on the sphere from (0,0,0) to (10,0,0).\<close>

lemma SetRadius_example:
  "SetRadius 5 sphere_node =
     ([], Some (sphere_node\<lparr>ControlPoints := [DefinedPoint (0, 0, 0), DefinedPoint (5, 0, 0)]\<rparr>))"
proof -
  have h: "round_double (- (1 / 2)) = Finite (- (1 / 2))" "round_double (1 / 2) = Finite (1 / 2)"
    using round_double_half [of "- 1"] round_double_half [of 1] by simp_all
  show ?thesis
    by (simp add: SetRadius_def sphere_node_def GetNthControlPointPositionWorld_def
        GetNumberOfControlPoints_def DefinedPoint_def kinds_distinct Let_def sqrt_100
        SetNthControlPointPositionWorld_def modes_distinct dsub_Finite round_double_Ints h)
qed

text \<open>The second pair of the tube, from radius 3 to radius 6 about its middle (0, 3, 5).\<close>

lemma tube_node_pair_2:
  "PairPoints 2 tube_node = ((0, 0, 5), (0, 6, 5))"
  by (simp add: PairPoints_def tube_node_def GetNthControlPointPositionWorld_def
      GetNumberOfControlPoints_def DefinedPoint_def smod_2_even)

lemma SetRadiusAtNthControlPoint_example:
  "SetRadiusAtNthControlPoint 2 6 tube_node =
     ([], Some (tube_node\<lparr>ControlPoints :=
        [DefinedPoint (0, 0, 0), DefinedPoint (10, 0, 0),
         DefinedPoint (0, - 3, 5), DefinedPoint (0, 9, 5),
         DefinedPoint (0, 0, 10), DefinedPoint (8, 0, 10)]\<rparr>))"
proof -
  have G: "GetRadiusAtNthControlPoint 2 tube_node = ([], Finite 3)"
    using tube_node_valid_2 tube_node_facts(1)
    by (simp add: GetRadius_Tube tube_node_pair_2 sqrt_36 dsub_Finite round_double_Ints)
  show ?thesis
    unfolding SetRadiusAtNthControlPoint_def G tube_node_pair_2
    by (simp add: Let_def smod_2_even sqrt_9 SetNthControlPointPositionWorld_def
        GetNumberOfControlPoints_def tube_node_def DefinedPoint_def dsub_Finite
        round_double_Ints)
qed

end
